theory Spec2Isabelle
  imports Main
begin

section \<open>JavaScript values used by the controllers\<close>

text \<open>
  Strings are lists of code units; only code units below 256 are represented. A query
  value is an optional string, as the documentation comment of \<open>getCommonParams\<close>
  declares it (\<open>None\<close> is \<open>undefined\<close>). \<open>parseInt\<close> gives the integer that the digits
  denote. \<open>getCommonParams\<close> only compares this integer with bounds and passes it on;
  \<open>bestOf\<close> computes with it unclamped, so there it is a JavaScript number: the integer
  rounded to the nearest double (\<open>toNumber\<close>), exact below \<open>2^53\<close> in magnitude and
  infinite from \<open>2^1024\<close> on. A timestamp is the number of milliseconds of a valid
  \<open>Date\<close>.
\<close>

datatype js_error = RangeError | TypeError | Error string

definition isWhiteSpace :: "char \<Rightarrow> bool" where
  \<comment> \<open>tab, line feed, vertical tab, form feed, carriage return, space, no-break space\<close>
  "isWhiteSpace c = (of_char c \<in> {9, 10, 11, 12, 13, 32, 160 :: nat})"

definition isDigit :: "char \<Rightarrow> bool" where
  "isDigit c = (48 \<le> (of_char c :: nat) \<and> (of_char c :: nat) \<le> 57)"

definition digitVal :: "char \<Rightarrow> int" where
  "digitVal c = int (of_char c) - 48"

definition digitsVal :: "string \<Rightarrow> int" where
  "digitsVal ds = foldl (\<lambda>acc d. 10 * acc + digitVal d) 0 ds"

definition parseDigits :: "string \<Rightarrow> int option" where
  "parseDigits s =
     (let ds = takeWhile isDigit s in if ds = [] then None else Some (digitsVal ds))"

definition parseInt :: "string option \<Rightarrow> int option" where
  \<comment> \<open>\<open>parseInt(v, 10)\<close>: leading white space is skipped, one sign is read, then the
      longest run of decimal digits; \<open>None\<close> is \<open>NaN\<close>. \<open>undefined\<close> reads as the
      text \<open>undefined\<close>, which has no digits. The result is the integer that the
      digits denote; the number the code holds is \<open>toNumber\<close> of it.\<close>
  "parseInt v =
     (case v of
        None \<Rightarrow> None
      | Some s \<Rightarrow>
          (case dropWhile isWhiteSpace s of
             [] \<Rightarrow> None
           | c # cs \<Rightarrow>
               if c = CHR ''-'' then map_option uminus (parseDigits cs)
               else if c = CHR ''+'' then parseDigits cs
               else parseDigits (c # cs)))"

definition toLowerChar :: "char \<Rightarrow> char" where
  \<comment> \<open>\<open>A\<close>..\<open>Z\<close> and the upper-case letters of Latin-1 (all of \<open>0xC0\<close>..\<open>0xDE\<close>
      but the multiplication sign) move 32 code units up.\<close>
  "toLowerChar c =
     (let n = (of_char c :: nat) in
      if (65 \<le> n \<and> n \<le> 90) \<or> (192 \<le> n \<and> n \<le> 222 \<and> n \<noteq> 215)
      then char_of (n + 32) else c)"

definition toLowerCase :: "string \<Rightarrow> string" where
  "toLowerCase s = map toLowerChar s"

definition trim :: "string \<Rightarrow> string" where
  "trim s = rev (dropWhile isWhiteSpace (rev (dropWhile isWhiteSpace s)))"

definition truthy :: "string option \<Rightarrow> bool" where
  \<comment> \<open>the truth value of a string that may be \<open>null\<close> or \<open>undefined\<close>\<close>
  "truthy v = (case v of None \<Rightarrow> False | Some s \<Rightarrow> s \<noteq> [])"

datatype js_number = Finite int | PosInfinity | NegInfinity

fun bitLength :: "nat \<Rightarrow> nat" where
  "bitLength n = (if n = 0 then 0 else Suc (bitLength (n div 2)))"

declare bitLength.simps [simp del]

definition roundMagnitude :: "nat \<Rightarrow> nat" where
  \<comment> \<open>a natural number rounded to 53 significant bits, ties to the even significand\<close>
  "roundMagnitude m =
     (if m < 2 ^ 53 then m
      else
        (let e = bitLength m - 53;
             q = m div 2 ^ e;
             r = m mod 2 ^ e;
             q1 = (if 2 ^ e < 2 * r \<or> (2 * r = 2 ^ e \<and> odd q) then q + 1 else q)
         in q1 * 2 ^ e))"

definition toNumber :: "int \<Rightarrow> js_number" where
  \<comment> \<open>the Number value of an integer: the nearest double, infinite when the rounded
      magnitude reaches \<open>2^1024\<close>\<close>
  "toNumber n =
     (let m = roundMagnitude (nat \<bar>n\<bar>)
      in if 2 ^ 1024 \<le> m then (if n < 0 then NegInfinity else PosInfinity)
         else Finite (if n < 0 then - int m else int m))"

definition orDefault :: "js_number option \<Rightarrow> js_number \<Rightarrow> js_number" where
  \<comment> \<open>\<open>x || d\<close> for a number \<open>x\<close>: \<open>d\<close> when \<open>x\<close> is \<open>NaN\<close> (\<open>None\<close>) or zero\<close>
  "orDefault x d = (case x of None \<Rightarrow> d | Some n \<Rightarrow> if n = Finite 0 then d else n)"

definition plusOne :: "js_number \<Rightarrow> js_number" where
  \<comment> \<open>\<open>x + 1\<close> on numbers: the exact sum rounded to a double\<close>
  "plusOne x =
     (case x of
        Finite n \<Rightarrow> toNumber (n + 1)
      | PosInfinity \<Rightarrow> PosInfinity
      | NegInfinity \<Rightarrow> NegInfinity)"

definition lengthLe :: "'a list \<Rightarrow> js_number \<Rightarrow> bool" where
  \<comment> \<open>\<open>xs.length <= x\<close>\<close>
  "lengthLe xs x =
     (case x of
        Finite n \<Rightarrow> int (length xs) \<le> n
      | PosInfinity \<Rightarrow> True
      | NegInfinity \<Rightarrow> False)"

definition setLength :: "'a list \<Rightarrow> int \<Rightarrow> js_error + 'a list" where
  \<comment> \<open>\<open>xs.length = n\<close> for an integer \<open>n\<close>: a negative length raises a RangeError. Both
      callers assign only when \<open>n\<close> is below the current length, where the array is cut.\<close>
  "setLength xs n = (if n < 0 then Inl RangeError else Inr (take (nat n) xs))"

definition setLengthNumber :: "'a list \<Rightarrow> js_number \<Rightarrow> js_error + 'a list" where
  \<comment> \<open>\<open>xs.length = x\<close> for a number \<open>x\<close>: an infinite length raises a RangeError too\<close>
  "setLengthNumber xs x =
     (case x of
        Finite n \<Rightarrow> setLength xs n
      | PosInfinity \<Rightarrow> Inl RangeError
      | NegInfinity \<Rightarrow> Inl RangeError)"

definition setAdd :: "'a list \<Rightarrow> 'a \<Rightarrow> 'a list" where
  \<comment> \<open>\<open>Set.prototype.add\<close>, the set kept as the list of its elements in insertion order\<close>
  "setAdd xs x = (if x \<in> set xs then xs else xs @ [x])"

definition uniq :: "'a list \<Rightarrow> 'a list" where
  \<comment> \<open>lodash \<open>_.uniq\<close>: the first occurrence of every element, in order\<close>
  "uniq xs = foldl setAdd [] xs"

definition uniqBy :: "('a \<Rightarrow> 'k) \<Rightarrow> 'a list \<Rightarrow> 'a list" where
  "uniqBy key xs =
     foldl (\<lambda>acc x. if key x \<in> set (map key acc) then acc else acc @ [x]) [] xs"

section \<open>Timelines controller: constants and request parameters\<close>

definition ORD_UPDATED :: string where
  "ORD_UPDATED = ''bumped''"

definition ORD_CREATED :: string where
  "ORD_CREATED = ''created''"

definition HOMEFEED_MODE_FRIENDS_ONLY :: string where
  "HOMEFEED_MODE_FRIENDS_ONLY = ''friends-only''"

definition HOMEFEED_MODE_CLASSIC :: string where
  "HOMEFEED_MODE_CLASSIC = ''classic''"

definition HOMEFEED_MODE_FRIENDS_ALL_ACTIVITY :: string where
  "HOMEFEED_MODE_FRIENDS_ALL_ACTIVITY = ''friends-all-activity''"

record user =
  u_id :: string
  isProtected :: string
  isPrivate :: string
  getHiddenCommentTypes :: "int list"

record ctx =
  query :: "string \<Rightarrow> string option"
  state_user :: "user option"
  state_targetUser :: "user option"

record common_params =
  limit :: int
  offset :: int
  sort_mode :: string
  homefeedMode :: string
  withMyPosts :: bool
  hiddenCommentTypes :: "int list"
  createdBefore :: "int option"
  createdAfter :: "int option"

record params = common_params +
  withLocalBumps :: bool
  withoutDirects :: bool

definition newDate :: "(string \<Rightarrow> int option) \<Rightarrow> string option \<Rightarrow> int option" where
  \<comment> \<open>\<open>new Date(v)\<close> followed by the \<open>isNaN\<close> test: \<open>None\<close> is an invalid date, which
      the caller replaces by \<open>null\<close>. The parser of date strings belongs to the
      JavaScript runtime and is a parameter; \<open>new Date(undefined)\<close> is invalid.\<close>
  "newDate dateParse v = (case v of None \<Rightarrow> None | Some s \<Rightarrow> dateParse s)"

definition getCommonParams ::
  "(string \<Rightarrow> int option) \<Rightarrow> ctx \<Rightarrow> string \<Rightarrow> common_params" where
  "getCommonParams dateParse c defaultSort =
     (let q = query c;
          viewer = state_user c;
          limit0 = parseInt (q ''limit'');
          limit1 = (case limit0 of
                      None \<Rightarrow> 30
                    | Some n \<Rightarrow> if n < 0 \<or> n > 120 then 30 else n);
          offset0 = parseInt (q ''offset'');
          offset1 = (case offset0 of
                       None \<Rightarrow> 0
                     | Some n \<Rightarrow> if n < 0 then 0 else n);
          createdBefore1 = newDate dateParse (q ''created-before'');
          createdAfter1 = newDate dateParse (q ''created-after'');
          withMyPosts1 =
            (toLowerCase (case q ''with-my-posts'' of
                            None \<Rightarrow> ''''
                          | Some s \<Rightarrow> if s = [] then '''' else s)
               \<in> set [''yes'', ''true'', ''1'', ''on'']);
          sort1 = (if q ''sort'' = Some ORD_CREATED \<or> q ''sort'' = Some ORD_UPDATED
                   then (case q ''sort'' of Some s \<Rightarrow> s | None \<Rightarrow> defaultSort)
                   else defaultSort);
          homefeedMode1 =
            (case q ''homefeed-mode'' of
               None \<Rightarrow> HOMEFEED_MODE_CLASSIC
             | Some m \<Rightarrow>
                 if m \<in> set [HOMEFEED_MODE_FRIENDS_ONLY, HOMEFEED_MODE_CLASSIC,
                              HOMEFEED_MODE_FRIENDS_ALL_ACTIVITY]
                 then m else HOMEFEED_MODE_CLASSIC);
          hiddenCommentTypes1 =
            (case viewer of None \<Rightarrow> [] | Some u \<Rightarrow> getHiddenCommentTypes u)
      in \<lparr> limit = limit1, offset = offset1, sort_mode = sort1,
           homefeedMode = homefeedMode1, withMyPosts = withMyPosts1,
           hiddenCommentTypes = hiddenCommentTypes1,
           createdBefore = createdBefore1, createdAfter = createdAfter1 \<rparr>)"

section \<open>Timelines controller: the data a feed read works on\<close>

record timeline =
  tl_id :: string
  tl_intId :: int
  tl_name :: string
  tl_userId :: string

record post =
  post_id :: string
  post_body :: string
  post_userId :: string
  feedIntIds :: "int list"

record destination =
  dest_id :: string
  dest_name :: string
  dest_user :: string

record feed_comment =
  fc_id :: string
  fc_body :: string
  fc_userId :: string

record attachment =
  att_id :: string

record post_with_stuff =
  pws_post :: post
  pws_destinations :: "destination list"
  pws_attachments :: "attachment list"
  pws_comments :: "feed_comment list"
  pws_likes :: "string list"
  pws_omittedComments :: int
  pws_omittedLikes :: int

record posts_query = params +
  authorsIds :: "string option list"
  activityFeedIds :: "int list"

text \<open>
  The collaborators of the controller that are imported from other modules: the database
  adapter, the methods of the timeline and user models, the configuration and the
  serializers. They are parameters of the model. \<open>'j\<close> is the type of the JSON values
  the serializers and the batch user queries produce; the controller reads three
  properties of them (\<open>createdBy\<close>, \<open>type\<close>, \<open>id\<close>), which are accessors here. A
  serializer whose result \<open>_.compact\<close> would drop returns \<open>None\<close>.
\<close>

record 'j dbAdapter =
  getUserNamedFeed :: "string \<Rightarrow> string \<Rightarrow> timeline"
  getUser :: "timeline \<Rightarrow> user"
  getCommentsTimelineIntId :: "user \<Rightarrow> int"
  getLikesTimelineIntId :: "user \<Rightarrow> int"
  getUserSubscribersIds :: "string \<Rightarrow> string list"
  bans :: "(string \<times> string) list"
  getSubscriprionsIntIds :: "string option \<Rightarrow> int list \<times> int list"
  getUserFriendIds :: "string option \<Rightarrow> string list"
  getTimelinePostsIds :: "string \<Rightarrow> int list \<Rightarrow> string option \<Rightarrow> posts_query \<Rightarrow> string list"
  postWithStuff :: "string \<Rightarrow> string option \<Rightarrow> params \<Rightarrow> post_with_stuff option"
  getTimelineSubscribersIds :: "string \<Rightarrow> string list"
  getGroupsAdministratorsIds :: "string list \<Rightarrow> string option \<Rightarrow> (string \<times> string list) list"
  getUsersByIdsAssoc :: "string list \<Rightarrow> (string \<times> 'j) list"
  getUsersStatsAssoc :: "string list \<Rightarrow> (string \<times> 'j) list"
  bestPosts :: "user option \<Rightarrow> js_number \<Rightarrow> js_number \<Rightarrow> post list"
  serializePostsCollection :: "post list \<Rightarrow> string option \<Rightarrow> 'j"
  dynamicRiverOfNews :: bool
  serializePost :: "post \<Rightarrow> 'j"
  serializeComment :: "feed_comment \<Rightarrow> 'j option"
  serializeAttachment :: "attachment \<Rightarrow> 'j option"
  userSerializerFunction ::
    "(string \<times> 'j) list \<Rightarrow> (string \<times> 'j) list \<Rightarrow> (string \<times> string list) list \<Rightarrow> string \<Rightarrow> 'j"
  createdBy :: "'j \<Rightarrow> string"
  json_type :: "'j \<Rightarrow> string"
  json_id :: "'j \<Rightarrow> string"

definition getUsersBansOrWasBannedBy :: "'j dbAdapter \<Rightarrow> string option \<Rightarrow> string list" where
  \<comment> \<open>Modelled from the spec: \<open>dbAdapter.getUsersBansOrWasBannedBy\<close> is not in the
      sources. \<open>bans\<close> is the ban relation, a pair being (banning user, banned user);
      the query returns the users on the other end of a ban with the given user, in
      either direction (the symmetric check of the social graph).\<close>
  "getUsersBansOrWasBannedBy db viewerId =
     (case viewerId of
        None \<Rightarrow> []
      | Some v \<Rightarrow>
          map snd (filter (\<lambda>b. fst b = v) (bans db)) @
          map fst (filter (\<lambda>b. snd b = v) (bans db)))"

definition getPostsWithStuffByIds ::
  "'j dbAdapter \<Rightarrow> string list \<Rightarrow> string option \<Rightarrow> params \<Rightarrow> post_with_stuff list" where
  \<comment> \<open>Modelled from the spec: \<open>dbAdapter.getPostsWithStuffByIds\<close> is not in the
      sources. It attaches to each returned post its destinations, comments,
      attachments and likes: one entry per post id that is found, in the order of the
      ids. What is attached to one post is the parameter \<open>postWithStuff\<close>.\<close>
  "getPostsWithStuffByIds db postsIds viewerId ps =
     List.map_filter (\<lambda>i. postWithStuff db i viewerId ps) postsIds"

record 'j sPost =
  sp_post :: 'j
  postedTo :: "string list"
  sp_comments :: "string list"
  sp_attachments :: "string list"
  sp_likes :: "string list"
  omittedComments :: int
  omittedLikes :: int
  isHidden :: bool

record timelines_json =
  t_id :: string
  t_name :: string
  t_user :: string
  t_posts :: "string list"
  t_subscribers :: "string list"

record 'j feed_result =
  timelines :: timelines_json
  users :: "'j list"
  subscriptions :: "destination list"
  subscribers :: "'j list"
  admins :: "'j list"
  isLastPage :: bool
  posts :: "'j sPost list"
  comments :: "'j list"
  attachments :: "'j list"

record sources =
  timelineIds :: "int list"
  src_activityFeedIds :: "int list"
  src_authorsIds :: "string option list"
  canViewUser :: bool

record 'j bestOf_body =
  bo_collection :: 'j
  bo_isLastPage :: bool

section \<open>Timelines controller: \<open>bestOf\<close>\<close>

definition bestOfPage :: "'j dbAdapter \<Rightarrow> ctx \<Rightarrow> js_error + (post list \<times> bool)" where
  \<comment> \<open>the handler of \<open>bestOf\<close> up to the cut of \<open>foundPosts\<close>\<close>
  "bestOfPage db c =
     (let DEFAULT_LIMIT = Finite 30;
          offset1 = orDefault (map_option toNumber (parseInt (query c ''offset''))) (Finite 0);
          limit1 = orDefault (map_option toNumber (parseInt (query c ''limit''))) DEFAULT_LIMIT;
          foundPosts = bestPosts db (state_user c) offset1 (plusOne limit1);
          isLastPage1 = lengthLe foundPosts limit1
      in if \<not> isLastPage1
         then (case setLengthNumber foundPosts limit1 of
                 Inl e \<Rightarrow> Inl e
               | Inr shortened \<Rightarrow> Inr (shortened, isLastPage1))
         else Inr (foundPosts, isLastPage1))"

definition bestOf :: "'j dbAdapter \<Rightarrow> ctx \<Rightarrow> js_error + 'j bestOf_body" where
  \<comment> \<open>\<open>initRawPosts\<close> and \<open>serializePostsCollection\<close> are not in the sources: the
      parameter \<open>serializePostsCollection\<close> stands for both.\<close>
  "bestOf db c =
     (let currentUserId = (case state_user c of None \<Rightarrow> None | Some u \<Rightarrow> Some (u_id u))
      in case bestOfPage db c of
           Inl e \<Rightarrow> Inl e
         | Inr (foundPosts, isLastPage1) \<Rightarrow>
             Inr \<lparr> bo_collection = serializePostsCollection db foundPosts currentUserId,
                   bo_isLastPage = isLastPage1 \<rparr>)"

section \<open>Timelines controller: \<open>genericTimeline\<close>\<close>

definition defaultParams :: params where
  "defaultParams =
     \<lparr> limit = 30, offset = 0, sort_mode = ORD_UPDATED,
       homefeedMode = HOMEFEED_MODE_CLASSIC, withMyPosts = False,
       hiddenCommentTypes = [], createdBefore = None, createdAfter = None,
       withLocalBumps = False, withoutDirects = False \<rparr>"

definition spread :: "params \<Rightarrow> common_params \<Rightarrow> params" where
  \<comment> \<open>\<open>{ ...base, ...getCommonParams(ctx) }\<close>: the eight keys of the common parameters
      replace those of \<open>base\<close>\<close>
  "spread base c =
     \<lparr> limit = limit c, offset = offset c, sort_mode = sort_mode c,
       homefeedMode = homefeedMode c, withMyPosts = withMyPosts c,
       hiddenCommentTypes = hiddenCommentTypes c,
       createdBefore = createdBefore c, createdAfter = createdAfter c,
       withLocalBumps = withLocalBumps base, withoutDirects = withoutDirects base \<rparr>"

definition effectiveParams :: "timeline \<Rightarrow> string option \<Rightarrow> params \<Rightarrow> params" where
  \<comment> \<open>lines 188 and 189; the argument is the parameter object already merged with the
      defaults of lines 174 to 186\<close>
  "effectiveParams feed viewerId ps =
     ps\<lparr> withLocalBumps :=
           (withLocalBumps ps \<and> truthy viewerId \<and> sort_mode ps = ORD_UPDATED),
         withMyPosts := (withMyPosts ps \<and> tl_name feed = ''MyDiscussions'') \<rparr>"

definition resolveSources ::
  "'j dbAdapter \<Rightarrow> timeline \<Rightarrow> string option \<Rightarrow> params \<Rightarrow> sources" where
  \<comment> \<open>lines 200 to 250: the source timelines, the author allow-list and the access check\<close>
  "resolveSources db feed viewerId ps =
     (let authors0 = (if withMyPosts ps then [viewerId] else []);
          owner = getUser db feed
      in if tl_name feed = ''MyDiscussions'' then
           \<lparr> timelineIds = [getCommentsTimelineIntId db owner, getLikesTimelineIntId db owner],
             src_activityFeedIds = [], src_authorsIds = authors0, canViewUser = True \<rparr>
         else if tl_name feed \<in> set [''Posts'', ''Comments'', ''Likes''] then
           \<lparr> timelineIds = [tl_intId feed], src_activityFeedIds = [], src_authorsIds = authors0,
             canViewUser =
               (if \<not> truthy viewerId then isProtected owner = ''0''
                else if viewerId \<noteq> Some (u_id owner) then
                  (let canView1 =
                         (if isPrivate owner = ''1''
                          then viewerId \<in> set (map Some (getUserSubscribersIds db (u_id owner)))
                          else True)
                   in if canView1
                      then u_id owner \<notin> set (getUsersBansOrWasBannedBy db viewerId)
                      else canView1)
                else True) \<rparr>
         else if tl_name feed = ''RiverOfNews'' \<and> dynamicRiverOfNews db then
           (let (destinations, activities) = getSubscriprionsIntIds db viewerId
            in if homefeedMode ps = HOMEFEED_MODE_FRIENDS_ALL_ACTIVITY then
                 (let authors1 = authors0 @ map Some (getUserFriendIds db viewerId)
                  in \<lparr> timelineIds = destinations @ activities, src_activityFeedIds = [],
                       src_authorsIds =
                         (if viewerId \<in> set authors1 then authors1 else authors1 @ [viewerId]),
                       canViewUser = True \<rparr>)
               else if homefeedMode ps = HOMEFEED_MODE_CLASSIC then
                 \<lparr> timelineIds = destinations, src_activityFeedIds = activities,
                   src_authorsIds = authors0, canViewUser = True \<rparr>
               else
                 \<lparr> timelineIds = destinations, src_activityFeedIds = [],
                   src_authorsIds = authors0, canViewUser = True \<rparr>)
         else
           \<lparr> timelineIds = [tl_intId feed], src_activityFeedIds = [], src_authorsIds = authors0,
             canViewUser = True \<rparr>)"

definition postsQuery :: "params \<Rightarrow> sources \<Rightarrow> posts_query" where
  \<comment> \<open>\<open>{ ...params, authorsIds, activityFeedIds, limit: params.limit + 1 }\<close>\<close>
  "postsQuery ps src =
     \<lparr> limit = limit ps + 1, offset = offset ps, sort_mode = sort_mode ps,
       homefeedMode = homefeedMode ps, withMyPosts = withMyPosts ps,
       hiddenCommentTypes = hiddenCommentTypes ps,
       createdBefore = createdBefore ps, createdAfter = createdAfter ps,
       withLocalBumps = withLocalBumps ps, withoutDirects = withoutDirects ps,
       authorsIds = src_authorsIds src, activityFeedIds = src_activityFeedIds src \<rparr>"

definition fetchPostsIds ::
  "'j dbAdapter \<Rightarrow> timeline \<Rightarrow> string option \<Rightarrow> params \<Rightarrow> sources \<Rightarrow> string list" where
  \<comment> \<open>lines 252 to 254\<close>
  "fetchPostsIds db feed viewerId ps src =
     (if canViewUser src
      then getTimelinePostsIds db (tl_name feed) (timelineIds src) viewerId (postsQuery ps src)
      else [])"

definition mkSPost :: "'j dbAdapter \<Rightarrow> int \<Rightarrow> post_with_stuff \<Rightarrow> 'j sPost" where
  \<comment> \<open>lines 265 to 277\<close>
  "mkSPost db hidesFeedId e =
     \<lparr> sp_post = serializePost db (pws_post e),
       postedTo = map dest_id (pws_destinations e),
       sp_comments = map fc_id (pws_comments e),
       sp_attachments = map att_id (pws_attachments e),
       sp_likes = pws_likes e,
       omittedComments = pws_omittedComments e,
       omittedLikes = pws_omittedLikes e,
       isHidden = (hidesFeedId \<in> set (feedIntIds (pws_post e))) \<rparr>"

definition postUserIds :: "'j dbAdapter \<Rightarrow> post_with_stuff \<Rightarrow> string list" where
  \<comment> \<open>lines 285 to 288: the ids one post adds to \<open>allUserIds\<close>, in order\<close>
  "postUserIds db e =
     createdBy db (serializePost db (pws_post e)) # pws_likes e @
     map fc_userId (pws_comments e) @ map dest_user (pws_destinations e)"

definition buildResult ::
  "'j dbAdapter \<Rightarrow> timeline \<Rightarrow> string option \<Rightarrow> params \<Rightarrow> int \<Rightarrow> bool \<Rightarrow> bool \<Rightarrow>
   string list \<Rightarrow> 'j feed_result" where
  \<comment> \<open>lines 262 to 331\<close>
  "buildResult db feed viewerId ps hidesFeedId canView isLastPage1 postsIds =
     (let postsWithStuff = getPostsWithStuffByIds db postsIds viewerId ps;
          allPosts = map (mkSPost db hidesFeedId) postsWithStuff;
          allDestinations = concat (map pws_destinations postsWithStuff);
          allComments = concat (map pws_comments postsWithStuff);
          allAttachments = concat (map pws_attachments postsWithStuff);
          allUserIds0 = foldl setAdd [] (concat (map (postUserIds db) postsWithStuff));
          timelinesSubscribers =
            (if canView then getTimelineSubscribersIds db (tl_id feed) else []);
          allSubscribers =
            map dest_user allDestinations @ [tl_userId feed] @ timelinesSubscribers;
          allUserIds1 = foldl setAdd allUserIds0 allSubscribers;
          allGroupAdmins =
            (if canView then getGroupsAdministratorsIds db allUserIds1 viewerId else []);
          allUserIds2 = foldl setAdd allUserIds1 (concat (map snd allGroupAdmins));
          allUsersAssoc = getUsersByIdsAssoc db allUserIds2;
          allStatsAssoc = getUsersStatsAssoc db allUserIds2;
          uniqSubscribers = filter (\<lambda>s. s \<noteq> []) (uniq allSubscribers);
          serializeUser = userSerializerFunction db allUsersAssoc allStatsAssoc allGroupAdmins
      in \<lparr> timelines =
             \<lparr> t_id = tl_id feed, t_name = tl_name feed, t_user = tl_userId feed,
               t_posts = postsIds, t_subscribers = timelinesSubscribers \<rparr>,
           users =
             filter (\<lambda>u. json_type db u = ''user'' \<or> json_id db u = tl_userId feed)
               (map serializeUser (map fst allUsersAssoc)),
           subscriptions = (if canView then uniqBy dest_id allDestinations else []),
           subscribers = (if canView then map serializeUser uniqSubscribers else []),
           admins =
             (if canView
              then map serializeUser
                     (case map_of allGroupAdmins (tl_userId feed) of
                        None \<Rightarrow> []
                      | Some ids \<Rightarrow> ids)
              else []),
           isLastPage = isLastPage1,
           posts = allPosts,
           comments = List.map_filter (serializeComment db) allComments,
           attachments = List.map_filter (serializeAttachment db) allAttachments \<rparr>)"

definition genericTimeline ::
  "'j dbAdapter \<Rightarrow> timeline \<Rightarrow> string option \<Rightarrow> params \<Rightarrow> js_error + 'j feed_result" where
  "genericTimeline db feed viewerId params0 =
     (let ps = effectiveParams feed viewerId params0;
          hidesFeedId =
            (case viewerId of
               None \<Rightarrow> 0
             | Some v \<Rightarrow> if v = [] then 0 else tl_intId (getUserNamedFeed db v ''Hides''));
          src = resolveSources db feed viewerId ps;
          postsIds0 = fetchPostsIds db feed viewerId ps src;
          isLastPage1 = (int (length postsIds0) \<le> limit ps)
      in case (if \<not> isLastPage1 then setLength postsIds0 (limit ps) else Inr postsIds0) of
           Inl e \<Rightarrow> Inl e
         | Inr postsIds \<Rightarrow>
             Inr (buildResult db feed viewerId ps hidesFeedId (canViewUser src)
                    isLastPage1 postsIds))"

definition viewerIdOf :: "ctx \<Rightarrow> string option" where
  \<comment> \<open>\<open>viewer ? viewer.id : null\<close>\<close>
  "viewerIdOf c = (case state_user c of None \<Rightarrow> None | Some viewer \<Rightarrow> Some (u_id viewer))"

definition userTimelineParams :: "(string \<Rightarrow> int option) \<Rightarrow> string \<Rightarrow> ctx \<Rightarrow> params" where
  \<comment> \<open>\<open>{ withoutDirects: (feedName !== 'Posts'), ...getCommonParams(ctx) }\<close> over the
      defaults of \<open>genericTimeline\<close>\<close>
  "userTimelineParams dateParse feedName c =
     spread (defaultParams\<lparr> withoutDirects := (feedName \<noteq> ''Posts'') \<rparr>)
       (getCommonParams dateParse c ORD_UPDATED)"

definition userTimeline ::
  "'j dbAdapter \<Rightarrow> (string \<Rightarrow> int option) \<Rightarrow> string \<Rightarrow> ctx \<Rightarrow> js_error + 'j feed_result" where
  \<comment> \<open>The handler of \<open>userTimeline(feedName)\<close>. The middleware \<open>targetUserRequired\<close>, which
      sets the target user, is not in the sources: without a target user the handler
      reads a property of \<open>undefined\<close>.\<close>
  "userTimeline db dateParse feedName c =
     (case state_targetUser c of
        None \<Rightarrow> Inl TypeError
      | Some targetUser \<Rightarrow>
          genericTimeline db (getUserNamedFeed db (u_id targetUser) feedName)
            (viewerIdOf c) (userTimelineParams dateParse feedName c))"

definition ownTimeline ::
  "'j dbAdapter \<Rightarrow> (string \<Rightarrow> int option) \<Rightarrow> string \<Rightarrow> params \<Rightarrow> ctx \<Rightarrow>
   js_error + 'j feed_result" where
  \<comment> \<open>The handler of \<open>ownTimeline(feedName, params)\<close>; \<open>base\<close> is the route's parameter
      object over the defaults. The middleware \<open>authRequired\<close> is not in the sources.\<close>
  "ownTimeline db dateParse feedName base c =
     (case state_user c of
        None \<Rightarrow> Inl TypeError
      | Some u \<Rightarrow>
          genericTimeline db (getUserNamedFeed db (u_id u) feedName) (Some (u_id u))
            (spread base (getCommonParams dateParse c ORD_UPDATED)))"

section \<open>The Comment model\<close>

datatype stamp = Num int | Str string

record comment_params =
  pr_id :: "string option"
  pr_body :: "string option"
  pr_userId :: "string option"
  pr_postId :: "string option"
  pr_createdAt :: "string option"
  pr_updatedAt :: "string option"

record comment =
  c_id :: "string option"
  c_body :: string
  c_userId :: "string option"
  c_postId :: "string option"
  c_createdAt :: "stamp option"
  c_updatedAt :: "stamp option"

record comment_payload =
  pl_body :: string
  pl_userId :: "string option"
  pl_postId :: "string option"
  pl_createdAt :: string
  pl_updatedAt :: string

fun showNat :: "nat \<Rightarrow> string" where
  "showNat n =
     (if n < 10 then [char_of (48 + n)] else showNat (n div 10) @ [char_of (48 + n mod 10)])"

declare showNat.simps [simp del]

definition numberToString :: "int \<Rightarrow> string" where
  \<comment> \<open>\<open>toString\<close> of an integer number below \<open>10^21\<close> in magnitude, as a time in
      milliseconds is: its decimal digits\<close>
  "numberToString n = (if n < 0 then CHR ''-'' # showNat (nat (- n)) else showNat (nat n))"

definition stampToString :: "stamp \<Rightarrow> string" where
  "stampToString t = (case t of Num n \<Rightarrow> numberToString n | Str s \<Rightarrow> s)"

definition anyUserId :: "comment list \<Rightarrow> string option \<Rightarrow> bool" where
  \<comment> \<open>lodash 3 \<open>_.any(comments, 'userId', v)\<close>: with a value \<open>v\<close>, whether some comment has
      this \<open>userId\<close>; with \<open>undefined\<close> the callback is the property itself, so whether
      some comment has a truthy \<open>userId\<close>\<close>
  "anyUserId cs v =
     (case v of
        None \<Rightarrow> list_ex (\<lambda>x. truthy (c_userId x)) cs
      | Some u \<Rightarrow> list_ex (\<lambda>x. c_userId x = Some u) cs)"

definition setBody :: "string option \<Rightarrow> string" where
  \<comment> \<open>the setter of \<open>body\<close>: the value of the private field \<open>body_\<close> it stores\<close>
  "setBody newValue =
     (case newValue of
        None \<Rightarrow> []
      | Some s \<Rightarrow> if s = [] then [] else trim s)"

definition keepStamp :: "string option \<Rightarrow> stamp option" where
  \<comment> \<open>\<open>if (parseInt(v, 10)) this.createdAt = v\<close>: the raw value is kept when it reads
      as a number other than zero\<close>
  "keepStamp v =
     (case parseInt v of
        None \<Rightarrow> None
      | Some n \<Rightarrow> if n = 0 then None else map_option Str v)"

definition Comment :: "comment_params \<Rightarrow> comment" where
  "Comment ps =
     \<lparr> c_id = pr_id ps, c_body = setBody (pr_body ps), c_userId = pr_userId ps,
       c_postId = pr_postId ps, c_createdAt = keepStamp (pr_createdAt ps),
       c_updatedAt = keepStamp (pr_updatedAt ps) \<rparr>"

definition valid :: "comment \<Rightarrow> bool" where
  "valid c =
     (c_body c \<noteq> [] \<and> 0 < length (c_body c) \<and>
      truthy (c_userId c) \<and> 0 < (case c_userId c of None \<Rightarrow> 0 | Some u \<Rightarrow> length u) \<and>
      truthy (c_postId c) \<and> 0 < (case c_postId c of None \<Rightarrow> 0 | Some p \<Rightarrow> length p))"

definition validate :: "comment \<Rightarrow> js_error + comment" where
  "validate c = (if \<not> valid c then Inl (Error ''Invalid'') else Inr c)"

text \<open>
  The collaborators of the model (the database adapter, the Post, User and Stats models
  and the publisher) are imported from other modules and act on a store of type \<open>'s\<close>.
  They are parameters; each takes the store and returns the new one. \<open>Post.findById\<close>
  returns \<open>None\<close> for \<open>null\<close>; the next line of the callers then reads a property of
  \<open>null\<close>. The time of \<open>new Date().getTime()\<close> is an input of \<open>create\<close> and
  \<open>update\<close>; the payload carries its decimal text. The two writes that \<open>destroy\<close> starts together in \<open>Promise.all\<close> are
  applied in the order in which they are started.
\<close>

record 's commentEnv =
  createComment :: "comment_payload \<Rightarrow> 's \<Rightarrow> string \<times> 's"
  updateComment :: "string option \<Rightarrow> string \<Rightarrow> string \<Rightarrow> 's \<Rightarrow> 's"
  deleteComment :: "string option \<Rightarrow> 's \<Rightarrow> 's"
  removeCommentFromPost :: "string option \<Rightarrow> string option \<Rightarrow> 's \<Rightarrow> 's"
  removePostFromTimeline :: "string \<Rightarrow> string option \<Rightarrow> 's \<Rightarrow> 's"
  deletePostUsageInTimeline :: "string option \<Rightarrow> string \<Rightarrow> 's \<Rightarrow> 's"
  Post_findById :: "string option \<Rightarrow> 's \<Rightarrow> post option"
  post_addComment :: "post \<Rightarrow> comment \<Rightarrow> 's \<Rightarrow> string list \<times> 's"
  post_getComments :: "post \<Rightarrow> 's \<Rightarrow> comment list"
  user_getCommentsTimelineId :: "string option \<Rightarrow> 's \<Rightarrow> string"
  stats_addComment :: "string option \<Rightarrow> 's \<Rightarrow> 's"
  stats_removeComment :: "string option \<Rightarrow> 's \<Rightarrow> bool \<times> 's"
  pubSub_updateComment :: "string option \<Rightarrow> 's \<Rightarrow> 's"
  pubSub_destroyComment :: "string option \<Rightarrow> string option \<Rightarrow> 's \<Rightarrow> 's"

definition create ::
  "'s commentEnv \<Rightarrow> int \<Rightarrow> int \<Rightarrow> comment \<Rightarrow> 's \<Rightarrow> (js_error + string list) \<times> comment \<times> 's" where
  \<comment> \<open>the result, the comment object after the call, and the store after the call\<close>
  "create env now1 now2 c s =
     (let createdAt1 = Num now1;
          updatedAt1 = Num now2;
          c1 = c\<lparr> c_createdAt := Some createdAt1, c_updatedAt := Some updatedAt1 \<rparr>
      in case validate c1 of
           Inl e \<Rightarrow> (Inl e, c1, s)
         | Inr _ \<Rightarrow>
             (let payload =
                    \<lparr> pl_body = c_body c1, pl_userId = c_userId c1, pl_postId = c_postId c1,
                      pl_createdAt = stampToString createdAt1,
                      pl_updatedAt = stampToString updatedAt1 \<rparr>;
                  (newId, s1) = createComment env payload s;
                  c2 = c1\<lparr> c_id := Some newId \<rparr>
              in case Post_findById env (c_postId c2) s1 of
                   None \<Rightarrow> (Inl TypeError, c2, s1)
                 | Some p \<Rightarrow>
                     (let (timelines1, s2) = post_addComment env p c2 s1;
                          s3 = stats_addComment env (c_userId c2) s2
                      in (Inr timelines1, c2, s3))))"

definition update ::
  "'s commentEnv \<Rightarrow> int \<Rightarrow> string option \<Rightarrow> comment \<Rightarrow> 's \<Rightarrow> (js_error + comment) \<times> comment \<times> 's" where
  "update env now1 newBody c s =
     (let updatedAt1 = Num now1;
          c1 = c\<lparr> c_updatedAt := Some updatedAt1, c_body := setBody newBody \<rparr>
      in case validate c1 of
           Inl e \<Rightarrow> (Inl e, c1, s)
         | Inr _ \<Rightarrow>
             (let s1 = updateComment env (c_id c1) (c_body c1) (stampToString updatedAt1) s;
                  s2 = pubSub_updateComment env (c_id c1) s1
              in (Inr c1, c1, s2)))"

definition destroy :: "'s commentEnv \<Rightarrow> comment \<Rightarrow> 's \<Rightarrow> (js_error + bool) \<times> 's" where
  "destroy env c s =
     (let s1 = pubSub_destroyComment env (c_id c) (c_postId c) s;
          s2 = deleteComment env (c_id c) s1;
          s3 = removeCommentFromPost env (c_postId c) (c_id c) s2
      in case Post_findById env (c_postId c) s3 of
           None \<Rightarrow> (Inl TypeError, s3)
         | Some p \<Rightarrow>
             (let comments1 = post_getComments env p s3
              in if anyUserId comments1 (c_userId c) then (Inr True, s3)
                 else
                   (let timelineId = user_getCommentsTimelineId env (c_userId c) s3;
                        s4 = removePostFromTimeline env timelineId (c_postId c) s3;
                        s5 = deletePostUsageInTimeline env (c_postId c) timelineId s4;
                        (res, s6) = stats_removeComment env (c_userId c) s5
                    in (Inr res, s6))))"

section \<open>A store for the Comment model\<close>

text \<open>
  None of the operations that \<open>create\<close> and \<open>destroy\<close> call on the store is in the
  sources. For the round trip of a comment they are modelled from the spec over a store
  that holds the comment records, each post's list of comment ids, the membership of
  posts in timelines, the usage index of posts, the comment counters, the published
  events and the supply of new ids.
\<close>

datatype event =
  CommentUpdated "string option"
| CommentDestroyed "string option" "string option"

record store =
  st_comments :: "string \<Rightarrow> comment_payload option"
  st_postComments :: "string \<Rightarrow> string list"
  st_posts :: "string \<Rightarrow> post option"
  st_timelinePosts :: "string \<Rightarrow> string list"
  st_postUsage :: "string \<Rightarrow> string list"
  st_commentsTimeline :: "string \<Rightarrow> string"
  st_commentsGiven :: "string \<Rightarrow> int"
  st_events :: "event list"
  st_newIds :: "nat \<Rightarrow> string"
  st_next :: nat

definition spec_createComment :: "comment_payload \<Rightarrow> store \<Rightarrow> string \<times> store" where
  \<comment> \<open>Modelled from the spec: \<open>dbAdapter.createComment\<close> is not in the sources. It
      stores the record under the next new id and returns the id.\<close>
  "spec_createComment payload s =
     (let i = st_newIds s (st_next s)
      in (i, s\<lparr> st_comments := (st_comments s)(i \<mapsto> payload), st_next := Suc (st_next s) \<rparr>))"

definition spec_updateComment ::
  "string option \<Rightarrow> string \<Rightarrow> string \<Rightarrow> store \<Rightarrow> store" where
  \<comment> \<open>Modelled from the spec: \<open>dbAdapter.updateComment\<close> is not in the sources. It
      replaces the body and the update time of a stored record.\<close>
  "spec_updateComment cid b t s =
     (case cid of
        None \<Rightarrow> s
      | Some i \<Rightarrow>
          (case st_comments s i of
             None \<Rightarrow> s
           | Some r \<Rightarrow>
               s\<lparr> st_comments := (st_comments s)(i \<mapsto> r\<lparr> pl_body := b, pl_updatedAt := t \<rparr>) \<rparr>))"

definition spec_deleteComment :: "string option \<Rightarrow> store \<Rightarrow> store" where
  \<comment> \<open>Modelled from the spec: \<open>dbAdapter.deleteComment\<close> is not in the sources. It
      deletes the stored record.\<close>
  "spec_deleteComment cid s =
     (case cid of
        None \<Rightarrow> s
      | Some i \<Rightarrow> s\<lparr> st_comments := (st_comments s)(i := None) \<rparr>)"

definition spec_removeCommentFromPost :: "string option \<Rightarrow> string option \<Rightarrow> store \<Rightarrow> store" where
  \<comment> \<open>Modelled from the spec: \<open>dbAdapter.removeCommentFromPost\<close> is not in the sources.
      It takes the comment id out of the post's list of comments.\<close>
  "spec_removeCommentFromPost pid cid s =
     (case (pid, cid) of
        (Some p, Some i) \<Rightarrow>
          s\<lparr> st_postComments := (st_postComments s)(p := removeAll i (st_postComments s p)) \<rparr>
      | _ \<Rightarrow> s)"

definition spec_addPostToTimeline :: "string \<Rightarrow> string \<Rightarrow> store \<Rightarrow> store" where
  \<comment> \<open>Modelled from the spec: \<open>addPostToTimeline\<close> of the timeline store is not in the
      sources. Adding is idempotent: a post that is a member stays once.\<close>
  "spec_addPostToTimeline tid p s =
     s\<lparr> st_timelinePosts := (st_timelinePosts s)(tid := setAdd (st_timelinePosts s tid) p),
        st_postUsage := (st_postUsage s)(p := setAdd (st_postUsage s p) tid) \<rparr>"

definition spec_removePostFromTimeline :: "string \<Rightarrow> string option \<Rightarrow> store \<Rightarrow> store" where
  \<comment> \<open>Modelled from the spec: \<open>dbAdapter.removePostFromTimeline\<close> is not in the sources.
      Removing is idempotent: removing a post that is no member changes nothing.\<close>
  "spec_removePostFromTimeline tid pid s =
     (case pid of
        None \<Rightarrow> s
      | Some p \<Rightarrow>
          s\<lparr> st_timelinePosts := (st_timelinePosts s)(tid := removeAll p (st_timelinePosts s tid)) \<rparr>)"

definition spec_deletePostUsageInTimeline :: "string option \<Rightarrow> string \<Rightarrow> store \<Rightarrow> store" where
  \<comment> \<open>Modelled from the spec: \<open>dbAdapter.deletePostUsageInTimeline\<close> is not in the
      sources. It takes the timeline out of the post's usage index.\<close>
  "spec_deletePostUsageInTimeline pid tid s =
     (case pid of
        None \<Rightarrow> s
      | Some p \<Rightarrow> s\<lparr> st_postUsage := (st_postUsage s)(p := removeAll tid (st_postUsage s p)) \<rparr>)"

definition spec_findPost :: "string option \<Rightarrow> store \<Rightarrow> post option" where
  \<comment> \<open>Modelled from the spec: \<open>Post.findById\<close> is not in the sources. It returns the
      stored post, or \<open>null\<close> when there is none.\<close>
  "spec_findPost pid s = (case pid of None \<Rightarrow> None | Some p \<Rightarrow> st_posts s p)"

definition commentOfPayload :: "string \<Rightarrow> comment_payload \<Rightarrow> comment" where
  \<comment> \<open>Modelled from the spec: loading a stored comment (\<open>Comment.initObject\<close>) is not in
      the sources. The comment object has the id and the fields of the stored record.\<close>
  "commentOfPayload i r =
     \<lparr> c_id = Some i, c_body = pl_body r, c_userId = pl_userId r, c_postId = pl_postId r,
       c_createdAt = keepStamp (Some (pl_createdAt r)),
       c_updatedAt = keepStamp (Some (pl_updatedAt r)) \<rparr>"

definition spec_getComments :: "post \<Rightarrow> store \<Rightarrow> comment list" where
  \<comment> \<open>Modelled from the spec: \<open>post.getComments\<close> is not in the sources. It returns the
      stored comments of the post, in the order of the post's list.\<close>
  "spec_getComments p s =
     List.map_filter (\<lambda>i. map_option (commentOfPayload i) (st_comments s i))
       (st_postComments s (post_id p))"

definition spec_getCommentsTimelineId :: "string option \<Rightarrow> store \<Rightarrow> string" where
  \<comment> \<open>Modelled from the spec: \<open>User.findById\<close> and \<open>user.getCommentsTimelineId\<close> are
      not in the sources. Every user owns one Comments timeline; its id is returned.\<close>
  "spec_getCommentsTimelineId uid s =
     (case uid of None \<Rightarrow> [] | Some u \<Rightarrow> st_commentsTimeline s u)"

definition spec_addComment :: "post \<Rightarrow> comment \<Rightarrow> store \<Rightarrow> string list \<times> store" where
  \<comment> \<open>Modelled from the spec: \<open>post.addComment\<close> is not in the sources. The comment
      joins the post's list of comments and the post gains membership in the
      commenter's Comments timeline; the timelines written are returned. The
      propagation into RiverOfNews timelines, which writes no Comments timeline, is
      left out.\<close>
  "spec_addComment p c s =
     (case (c_id c, c_userId c) of
        (Some i, Some u) \<Rightarrow>
          (let s1 = s\<lparr> st_postComments :=
                          (st_postComments s)(post_id p := st_postComments s (post_id p) @ [i]) \<rparr>;
               tid = st_commentsTimeline s1 u
           in ([tid], spec_addPostToTimeline tid (post_id p) s1))
      | _ \<Rightarrow> ([], s))"

definition spec_statsAddComment :: "string option \<Rightarrow> store \<Rightarrow> store" where
  \<comment> \<open>Modelled from the spec: \<open>Stats.findById\<close> and \<open>stats.addComment\<close> are not in
      the sources. The counter of comments given by the user goes up by one.\<close>
  "spec_statsAddComment uid s =
     (case uid of
        None \<Rightarrow> s
      | Some u \<Rightarrow> s\<lparr> st_commentsGiven := (st_commentsGiven s)(u := st_commentsGiven s u + 1) \<rparr>)"

definition spec_statsRemoveComment :: "string option \<Rightarrow> store \<Rightarrow> bool \<times> store" where
  \<comment> \<open>Modelled from the spec: \<open>stats.removeComment\<close> is not in the sources. The counter
      of comments given by the user goes down by one.\<close>
  "spec_statsRemoveComment uid s =
     (case uid of
        None \<Rightarrow> (True, s)
      | Some u \<Rightarrow>
          (True, s\<lparr> st_commentsGiven := (st_commentsGiven s)(u := st_commentsGiven s u - 1) \<rparr>))"

definition spec_publish :: "event \<Rightarrow> store \<Rightarrow> store" where
  \<comment> \<open>Modelled from the spec: the publisher \<open>pubSub\<close> is not in the sources. An event is
      appended to the events published so far.\<close>
  "spec_publish e s = s\<lparr> st_events := st_events s @ [e] \<rparr>"

definition specEnv :: "store commentEnv" where
  \<comment> \<open>the collaborators of the Comment model over the store, as modelled above\<close>
  "specEnv =
     \<lparr> createComment = spec_createComment,
       updateComment = spec_updateComment,
       deleteComment = spec_deleteComment,
       removeCommentFromPost = spec_removeCommentFromPost,
       removePostFromTimeline = spec_removePostFromTimeline,
       deletePostUsageInTimeline = spec_deletePostUsageInTimeline,
       Post_findById = spec_findPost,
       post_addComment = spec_addComment,
       post_getComments = spec_getComments,
       user_getCommentsTimelineId = spec_getCommentsTimelineId,
       stats_addComment = spec_statsAddComment,
       stats_removeComment = spec_statsRemoveComment,
       pubSub_updateComment = (\<lambda>i. spec_publish (CommentUpdated i)),
       pubSub_destroyComment = (\<lambda>i p. spec_publish (CommentDestroyed i p)) \<rparr>"

definition inCommentsTimeline :: "store \<Rightarrow> string \<Rightarrow> string \<Rightarrow> bool" where
  \<comment> \<open>the post is a member of the user's Comments timeline\<close>
  "inCommentsTimeline s u p = (p \<in> set (st_timelinePosts s (st_commentsTimeline s u)))"

definition hasCommentOn :: "store \<Rightarrow> string \<Rightarrow> string \<Rightarrow> bool" where
  \<comment> \<open>the user has a stored comment in the post's list of comments\<close>
  "hasCommentOn s u p =
     list_ex (\<lambda>i. case st_comments s i of None \<Rightarrow> False | Some r \<Rightarrow> pl_userId r = Some u)
       (st_postComments s p)"

definition createThenDestroy :: "int \<Rightarrow> int \<Rightarrow> comment \<Rightarrow> store \<Rightarrow> store" where
  \<comment> \<open>the store after \<open>create\<close> of a comment followed by \<open>destroy\<close> of the created comment\<close>
  "createThenDestroy now1 now2 c s =
     (case create specEnv now1 now2 c s of
        (_, c1, s1) \<Rightarrow> snd (destroy specEnv c1 s1))"

definition roundTripRestores :: "int \<Rightarrow> int \<Rightarrow> comment \<Rightarrow> store \<Rightarrow> string \<Rightarrow> string \<Rightarrow> bool" where
  \<comment> \<open>after \<open>create\<close> and \<open>destroy\<close> of the comment, the post's membership in the user's
      Comments timeline is what it was before\<close>
  "roundTripRestores now1 now2 c s u p =
     (inCommentsTimeline (createThenDestroy now1 now2 c s) u p = inCommentsTimeline s u p)"

section \<open>Example data\<close>

definition anonymousRequest :: "(string \<times> string) list \<Rightarrow> ctx" where
  \<comment> \<open>a request of a viewer who is not signed in, with the given query string\<close>
  "anonymousRequest qs = \<lparr> query = map_of qs, state_user = None, state_targetUser = None \<rparr>"

definition demoDateParse :: "string \<Rightarrow> int option" where
  \<comment> \<open>a date parser that accepts one text\<close>
  "demoDateParse s = (if s = ''2020-01-01T00:00:00.000Z'' then Some 1577836800000 else None)"

definition luna :: user where
  \<comment> \<open>a private account\<close>
  "luna = \<lparr> u_id = ''luna'', isProtected = ''1'', isPrivate = ''1'', getHiddenCommentTypes = [] \<rparr>"

definition mars :: user where
  \<comment> \<open>a public account\<close>
  "mars = \<lparr> u_id = ''mars'', isProtected = ''0'', isPrivate = ''0'', getHiddenCommentTypes = [] \<rparr>"

definition userRequest :: "user option \<Rightarrow> user \<Rightarrow> (string \<times> string) list \<Rightarrow> ctx" where
  \<comment> \<open>a request of the given viewer for a feed of the given target user\<close>
  "userRequest viewer target qs =
     \<lparr> query = map_of qs, state_user = viewer, state_targetUser = Some target \<rparr>"

definition demoFeed :: "string \<Rightarrow> string \<Rightarrow> timeline" where
  "demoFeed u n = \<lparr> tl_id = u @ ''/'' @ n, tl_intId = int (length n), tl_name = n, tl_userId = u \<rparr>"

definition demoPost :: "string \<Rightarrow> post" where
  "demoPost i = \<lparr> post_id = i, post_body = ''hello'', post_userId = ''luna'', feedIntIds = [5] \<rparr>"

definition demoStuff :: "string \<Rightarrow> post_with_stuff" where
  "demoStuff i =
     \<lparr> pws_post = demoPost i,
       pws_destinations = [\<lparr> dest_id = ''luna/Posts'', dest_name = ''Posts'', dest_user = ''luna'' \<rparr>],
       pws_attachments = [], pws_comments = [], pws_likes = [],
       pws_omittedComments = 0, pws_omittedLikes = 0 \<rparr>"

definition demoDb :: "(string \<times> string) list \<Rightarrow> string list \<Rightarrow> string dbAdapter" where
  \<comment> \<open>an adapter over three stored posts, with the given ban relation and the given
      subscribers of luna; a JSON value is its id\<close>
  "demoDb bs subs =
     \<lparr> getUserNamedFeed = demoFeed,
       getUser = (\<lambda>t. if tl_userId t = ''luna'' then luna else mars),
       getCommentsTimelineIntId = (\<lambda>u. 8),
       getLikesTimelineIntId = (\<lambda>u. 5),
       getUserSubscribersIds = (\<lambda>u. if u = ''luna'' then subs else []),
       bans = bs,
       getSubscriprionsIntIds = (\<lambda>v. ([], [])),
       getUserFriendIds = (\<lambda>v. []),
       getTimelinePostsIds = (\<lambda>n ids v q. take (nat (limit q)) [''p1'', ''p2'', ''p3'']),
       postWithStuff = (\<lambda>i v ps. Some (demoStuff i)),
       getTimelineSubscribersIds = (\<lambda>t. []),
       getGroupsAdministratorsIds = (\<lambda>ids v. []),
       getUsersByIdsAssoc = (\<lambda>ids. map (\<lambda>i. (i, i)) ids),
       getUsersStatsAssoc = (\<lambda>ids. []),
       bestPosts = (\<lambda>u off lim. case lim of
                      Finite n \<Rightarrow> take (nat n) [demoPost ''p1'', demoPost ''p2'', demoPost ''p3'']
                    | PosInfinity \<Rightarrow> [demoPost ''p1'', demoPost ''p2'', demoPost ''p3'']
                    | NegInfinity \<Rightarrow> []),
       serializePostsCollection = (\<lambda>ps v. concat (map post_id ps)),
       dynamicRiverOfNews = True,
       serializePost = post_id,
       serializeComment = (\<lambda>c. Some (fc_id c)),
       serializeAttachment = (\<lambda>a. Some (att_id a)),
       userSerializerFunction = (\<lambda>us ss gs i. i),
       createdBy = (\<lambda>j. ''luna''),
       json_type = (\<lambda>j. ''user''),
       json_id = (\<lambda>j. j) \<rparr>"

definition demoParams :: "int \<Rightarrow> bool \<Rightarrow> params" where
  \<comment> \<open>the default parameters with the given limit and \<open>withMyPosts\<close> flag\<close>
  "demoParams l w = defaultParams\<lparr> limit := l, withMyPosts := w \<rparr>"

definition marsComment :: "string \<Rightarrow> comment" where
  \<comment> \<open>a new comment of mars on post \<open>p1\<close> with the given body\<close>
  "marsComment b =
     Comment \<lparr> pr_id = None, pr_body = Some b, pr_userId = Some ''mars'', pr_postId = Some ''p1'',
               pr_createdAt = None, pr_updatedAt = None \<rparr>"

definition freshStore :: store where
  \<comment> \<open>a store with the post \<open>p1\<close> and no comment\<close>
  "freshStore =
     \<lparr> st_comments = Map.empty,
       st_postComments = (\<lambda>p. []),
       st_posts = [''p1'' \<mapsto> demoPost ''p1''],
       st_timelinePosts = (\<lambda>t. []),
       st_postUsage = (\<lambda>p. []),
       st_commentsTimeline = (\<lambda>u. u @ ''/Comments''),
       st_commentsGiven = (\<lambda>u. 0),
       st_events = [],
       st_newIds = (\<lambda>n. replicate (Suc n) CHR ''c''),
       st_next = 0 \<rparr>"

definition commentedStore :: store where
  \<comment> \<open>the store after mars has commented once on the post \<open>p1\<close>\<close>
  "commentedStore = snd (snd (create specEnv 1 1 (marsComment ''first'') freshStore))"

definition detachedStore :: store where
  \<comment> \<open>the store after mars has commented once on \<open>p1\<close> and the timelines were emptied\<close>
  "detachedStore = commentedStore\<lparr> st_timelinePosts := (\<lambda>t. []) \<rparr>"

section \<open>Properties of the request parameters\<close>

lemma parseInt_examples:
  "parseInt (Some ''500'') = Some 500"
  "parseInt (Some ''-3'') = Some (- 3)"
  "parseInt (Some '' 42px'') = Some 42"
  "parseInt (Some ''7'') = Some 7"
  "parseInt (Some ''abc'') = None"
  "parseInt None = None"
  by (simp_all add: parseInt_def parseDigits_def digitsVal_def digitVal_def isDigit_def
      isWhiteSpace_def)

lemma getCommonParams_limit_range:
  "0 \<le> limit (getCommonParams dp c ds) \<and> limit (getCommonParams dp c ds) \<le> 120"
  by (simp add: getCommonParams_def Let_def split: option.split)

text \<open>
  C7. The limit that \<open>getCommonParams\<close> returns lies between 0 and 120 and the offset is
  not negative. A limit that is absent, does not parse, is negative or is above 120
  gives 30; an offset that is absent, does not parse or is negative gives 0; every other
  parsed value is returned as it is. The limit and the offset that \<open>genericTimeline\<close>
  works with are these values.
\<close>

theorem getCommonParams_limit_offset:
  "0 \<le> limit (getCommonParams dp c ds) \<and> limit (getCommonParams dp c ds) \<le> 120 \<and>
   0 \<le> offset (getCommonParams dp c ds) \<and>
   (query c ''limit'' = None \<longrightarrow> limit (getCommonParams dp c ds) = 30) \<and>
   (query c ''offset'' = None \<longrightarrow> offset (getCommonParams dp c ds) = 0) \<and>
   (parseInt (query c ''limit'') = None \<longrightarrow> limit (getCommonParams dp c ds) = 30) \<and>
   (\<forall>n. parseInt (query c ''limit'') = Some n \<and> (n < 0 \<or> 120 < n) \<longrightarrow>
        limit (getCommonParams dp c ds) = 30) \<and>
   (\<forall>n. parseInt (query c ''limit'') = Some n \<and> 0 \<le> n \<and> n \<le> 120 \<longrightarrow>
        limit (getCommonParams dp c ds) = n) \<and>
   (parseInt (query c ''offset'') = None \<longrightarrow> offset (getCommonParams dp c ds) = 0) \<and>
   (\<forall>n. parseInt (query c ''offset'') = Some n \<and> n < 0 \<longrightarrow>
        offset (getCommonParams dp c ds) = 0) \<and>
   (\<forall>n. parseInt (query c ''offset'') = Some n \<and> 0 \<le> n \<longrightarrow>
        offset (getCommonParams dp c ds) = n) \<and>
   limit (effectiveParams feed v (spread base (getCommonParams dp c ds))) =
     limit (getCommonParams dp c ds) \<and>
   offset (effectiveParams feed v (spread base (getCommonParams dp c ds))) =
     offset (getCommonParams dp c ds) \<and>
   limit (effectiveParams feed v (userTimelineParams dp feedName c)) =
     limit (getCommonParams dp c ORD_UPDATED) \<and>
   offset (effectiveParams feed v (userTimelineParams dp feedName c)) =
     offset (getCommonParams dp c ORD_UPDATED)"
proof -
  have e: "limit (effectiveParams feed v qs) = limit qs"
    "offset (effectiveParams feed v qs) = offset qs" for qs
    by (simp_all add: effectiveParams_def)
  have s: "limit (spread b cp) = limit cp" "offset (spread b cp) = offset cp" for b cp
    by (simp_all add: spread_def)
  show ?thesis
    unfolding e s userTimelineParams_def
    by (auto simp: getCommonParams_def Let_def parseInt_def split: option.split)
qed

theorem getCommonParams_limit_offset_witness:
  "limit (getCommonParams demoDateParse
            (anonymousRequest [(''limit'', ''500''), (''offset'', ''-3'')]) ORD_UPDATED) = 30 \<and>
   offset (getCommonParams demoDateParse
            (anonymousRequest [(''limit'', ''500''), (''offset'', ''-3'')]) ORD_UPDATED) = 0 \<and>
   limit (getCommonParams demoDateParse
            (anonymousRequest [(''limit'', '' 42px''), (''offset'', ''7'')]) ORD_UPDATED) = 42 \<and>
   offset (getCommonParams demoDateParse
            (anonymousRequest [(''limit'', '' 42px''), (''offset'', ''7'')]) ORD_UPDATED) = 7 \<and>
   limit (getCommonParams demoDateParse (anonymousRequest [(''limit'', ''abc'')]) ORD_UPDATED) = 30 \<and>
   offset (getCommonParams demoDateParse (anonymousRequest [(''limit'', ''abc'')]) ORD_UPDATED) = 0"
proof -
  let ?a = "anonymousRequest [(''limit'', ''500''), (''offset'', ''-3'')]"
  let ?b = "anonymousRequest [(''limit'', '' 42px''), (''offset'', ''7'')]"
  let ?c = "anonymousRequest [(''limit'', ''abc'')]"
  have a: "parseInt (query ?a ''limit'') = Some 500" "parseInt (query ?a ''offset'') = Some (- 3)"
    by (simp_all add: anonymousRequest_def parseInt_examples)
  have b: "parseInt (query ?b ''limit'') = Some 42" "parseInt (query ?b ''offset'') = Some 7"
    by (simp_all add: anonymousRequest_def parseInt_examples)
  have c: "parseInt (query ?c ''limit'') = None" "query ?c ''offset'' = None"
    by (simp_all add: anonymousRequest_def parseInt_examples)
  show ?thesis
    using getCommonParams_limit_offset [of demoDateParse ?a ORD_UPDATED]
      getCommonParams_limit_offset [of demoDateParse ?b ORD_UPDATED]
      getCommonParams_limit_offset [of demoDateParse ?c ORD_UPDATED] a b c
    by simp
qed

lemmas demo_defs = demoDb_def demoFeed_def demoPost_def demoStuff_def demoParams_def
  luna_def mars_def defaultParams_def userRequest_def anonymousRequest_def demoDateParse_def

lemmas model_defs = genericTimeline_def effectiveParams_def resolveSources_def
  fetchPostsIds_def postsQuery_def buildResult_def getPostsWithStuffByIds_def mkSPost_def
  postUserIds_def getUsersBansOrWasBannedBy_def setLength_def truthy_def setAdd_def
  uniq_def uniqBy_def List.map_filter_def ORD_UPDATED_def HOMEFEED_MODE_CLASSIC_def

lemma toLowerCase_examples:
  "toLowerCase ''YES'' = ''yes''"
  "toLowerCase ''On'' = ''on''"
  "toLowerCase ''1'' = ''1''"
  "toLowerCase ''no'' = ''no''"
  by code_simp+

lemma limit_effectiveParams: "limit (effectiveParams feed v ps) = limit ps"
  by (simp add: effectiveParams_def)

lemma limit_spread: "limit (spread base cp) = limit cp"
  by (simp add: spread_def)

lemma genericTimeline_returns:
  "0 \<le> limit ps \<Longrightarrow> \<exists>r. genericTimeline db feed v ps = Inr r"
  by (simp add: genericTimeline_def Let_def setLength_def limit_effectiveParams)

lemma userTimeline_returns:
  "state_targetUser c \<noteq> None \<Longrightarrow> \<exists>r. userTimeline db dp feedName c = Inr r"
  by (auto simp: userTimeline_def userTimelineParams_def limit_spread
      getCommonParams_limit_range intro!: genericTimeline_returns)

lemma ownTimeline_returns:
  "state_user c \<noteq> None \<Longrightarrow> \<exists>r. ownTimeline db dp feedName base c = Inr r"
  by (auto simp: ownTimeline_def limit_spread getCommonParams_limit_range
      intro!: genericTimeline_returns)

text \<open>
  C8. A \<open>created-before\<close> or \<open>created-after\<close> value that is absent or that the date parser
  rejects gives the bound \<open>null\<close>; a value that parses gives its timestamp as the bound.
  \<open>getCommonParams\<close> has no failing branch, and the handlers that call it return a
  result whatever the two values are.
\<close>

theorem getCommonParams_created_bounds:
  "(query c ''created-before'' = None \<longrightarrow> createdBefore (getCommonParams dp c ds) = None) \<and>
   (\<forall>s. query c ''created-before'' = Some s \<and> dp s = None \<longrightarrow>
        createdBefore (getCommonParams dp c ds) = None) \<and>
   (\<forall>s t. query c ''created-before'' = Some s \<and> dp s = Some t \<longrightarrow>
        createdBefore (getCommonParams dp c ds) = Some t) \<and>
   (query c ''created-after'' = None \<longrightarrow> createdAfter (getCommonParams dp c ds) = None) \<and>
   (\<forall>s. query c ''created-after'' = Some s \<and> dp s = None \<longrightarrow>
        createdAfter (getCommonParams dp c ds) = None) \<and>
   (\<forall>s t. query c ''created-after'' = Some s \<and> dp s = Some t \<longrightarrow>
        createdAfter (getCommonParams dp c ds) = Some t) \<and>
   (state_targetUser c \<noteq> None \<longrightarrow> (\<exists>r. userTimeline db dp feedName c = Inr r)) \<and>
   (state_user c \<noteq> None \<longrightarrow> (\<exists>r. ownTimeline db dp feedName base c = Inr r))"
proof -
  have "createdBefore (getCommonParams dp c ds) = newDate dp (query c ''created-before'')"
    and "createdAfter (getCommonParams dp c ds) = newDate dp (query c ''created-after'')"
    by (simp_all add: getCommonParams_def Let_def)
  then show ?thesis
    using userTimeline_returns [of c db dp feedName]
      ownTimeline_returns [of c db dp feedName base]
    by (simp add: newDate_def)
qed

theorem getCommonParams_created_bounds_witness:
  "createdBefore (getCommonParams demoDateParse
      (userRequest (Some mars) luna
         [(''created-before'', ''yesterday''), (''created-after'', ''2020-01-01T00:00:00.000Z'')])
      ORD_UPDATED) = None \<and>
   createdAfter (getCommonParams demoDateParse
      (userRequest (Some mars) luna
         [(''created-before'', ''yesterday''), (''created-after'', ''2020-01-01T00:00:00.000Z'')])
      ORD_UPDATED) = Some 1577836800000 \<and>
   (\<exists>r. userTimeline (demoDb [] []) demoDateParse ''Posts''
      (userRequest (Some mars) luna
         [(''created-before'', ''yesterday''), (''created-after'', ''2020-01-01T00:00:00.000Z'')])
      = Inr r) \<and>
   (\<exists>r. ownTimeline (demoDb [] []) demoDateParse ''RiverOfNews'' defaultParams
      (userRequest (Some mars) luna
         [(''created-before'', ''yesterday''), (''created-after'', ''2020-01-01T00:00:00.000Z'')])
      = Inr r)"
proof -
  let ?c = "userRequest (Some mars) luna
         [(''created-before'', ''yesterday''), (''created-after'', ''2020-01-01T00:00:00.000Z'')]"
  have q: "query ?c ''created-before'' = Some ''yesterday''"
    "query ?c ''created-after'' = Some ''2020-01-01T00:00:00.000Z''"
    "demoDateParse ''yesterday'' = None"
    "demoDateParse ''2020-01-01T00:00:00.000Z'' = Some 1577836800000"
    "state_targetUser ?c \<noteq> None" "state_user ?c \<noteq> None"
    by (simp_all add: userRequest_def demoDateParse_def)
  show ?thesis
    using getCommonParams_created_bounds
      [of ?c demoDateParse ORD_UPDATED "demoDb [] []" "''Posts''" defaultParams] q
      getCommonParams_created_bounds
      [of ?c demoDateParse ORD_UPDATED "demoDb [] []" "''RiverOfNews''" defaultParams]
    by simp
qed

text \<open>
  C9. A \<open>homefeed-mode\<close> value that is one of the three modes is the mode returned; an
  absent value and every other value give the classic mode. The handlers that call
  \<open>getCommonParams\<close> return a result whatever the value is.
\<close>

theorem getCommonParams_homefeedMode:
  "(\<forall>m. query c ''homefeed-mode'' = Some m \<and>
        m \<in> {''friends-only'', ''classic'', ''friends-all-activity''} \<longrightarrow>
        homefeedMode (getCommonParams dp c ds) = m) \<and>
   (query c ''homefeed-mode'' = None \<longrightarrow> homefeedMode (getCommonParams dp c ds) = ''classic'') \<and>
   (\<forall>m. query c ''homefeed-mode'' = Some m \<and>
        m \<notin> {''friends-only'', ''classic'', ''friends-all-activity''} \<longrightarrow>
        homefeedMode (getCommonParams dp c ds) = ''classic'') \<and>
   (state_targetUser c \<noteq> None \<longrightarrow> (\<exists>r. userTimeline db dp feedName c = Inr r)) \<and>
   (state_user c \<noteq> None \<longrightarrow> (\<exists>r. ownTimeline db dp feedName base c = Inr r))"
proof -
  have "homefeedMode (getCommonParams dp c ds) =
        (case query c ''homefeed-mode'' of
           None \<Rightarrow> ''classic''
         | Some m \<Rightarrow> if m \<in> {''friends-only'', ''classic'', ''friends-all-activity''}
                     then m else ''classic'')"
    by (simp add: getCommonParams_def Let_def HOMEFEED_MODE_CLASSIC_def
        HOMEFEED_MODE_FRIENDS_ONLY_def HOMEFEED_MODE_FRIENDS_ALL_ACTIVITY_def
        split: option.split)
  then show ?thesis
    using userTimeline_returns [of c db dp feedName]
      ownTimeline_returns [of c db dp feedName base]
    by (simp split: option.split)
qed

theorem getCommonParams_homefeedMode_witness:
  "homefeedMode (getCommonParams demoDateParse
      (userRequest (Some mars) mars [(''homefeed-mode'', ''everything'')]) ORD_UPDATED) = ''classic'' \<and>
   homefeedMode (getCommonParams demoDateParse
      (userRequest (Some mars) mars [(''homefeed-mode'', ''friends-only'')]) ORD_UPDATED)
     = ''friends-only'' \<and>
   homefeedMode (getCommonParams demoDateParse (userRequest (Some mars) mars []) ORD_UPDATED)
     = ''classic'' \<and>
   (\<exists>r. ownTimeline (demoDb [] []) demoDateParse ''RiverOfNews'' defaultParams
      (userRequest (Some mars) mars [(''homefeed-mode'', ''everything'')]) = Inr r) \<and>
   (\<exists>r. userTimeline (demoDb [] []) demoDateParse ''Posts''
      (userRequest (Some mars) mars [(''homefeed-mode'', ''everything'')]) = Inr r)"
proof -
  let ?a = "userRequest (Some mars) mars [(''homefeed-mode'', ''everything'')]"
  let ?b = "userRequest (Some mars) mars [(''homefeed-mode'', ''friends-only'')]"
  let ?c = "userRequest (Some mars) mars []"
  have q: "query ?a ''homefeed-mode'' = Some ''everything''"
    "query ?b ''homefeed-mode'' = Some ''friends-only''"
    "query ?c ''homefeed-mode'' = None"
    "state_targetUser ?a \<noteq> None" "state_user ?a \<noteq> None"
    by (simp_all add: userRequest_def)
  show ?thesis
    using getCommonParams_homefeedMode
      [of ?a demoDateParse ORD_UPDATED "demoDb [] []" "''Posts''" defaultParams]
      getCommonParams_homefeedMode
      [of ?b demoDateParse ORD_UPDATED "demoDb [] []" "''Posts''" defaultParams]
      getCommonParams_homefeedMode
      [of ?c demoDateParse ORD_UPDATED "demoDb [] []" "''Posts''" defaultParams]
      getCommonParams_homefeedMode
      [of ?a demoDateParse ORD_UPDATED "demoDb [] []" "''RiverOfNews''" defaultParams] q
    by simp
qed

section \<open>Properties of \<open>genericTimeline\<close>\<close>

lemma effectiveParams_withMyPosts_irrelevant:
  "tl_name feed \<noteq> ''MyDiscussions'' \<Longrightarrow>
   effectiveParams feed v (ps\<lparr> withMyPosts := b \<rparr>) = effectiveParams feed v ps"
  by (simp add: effectiveParams_def)

text \<open>
  C10. For a feed whose name is not MyDiscussions the effective \<open>withMyPosts\<close> is false
  and the whole result of \<open>genericTimeline\<close> is the same whatever flag was requested.
  For a MyDiscussions feed with the flag set, the author allow-list that is passed to the
  query of post ids is the viewer's id, over the owner's Comments and Likes timelines;
  without the flag the allow-list is empty. The flag is set by the query values
  \<open>yes\<close>, \<open>true\<close>, \<open>1\<close> and \<open>on\<close> in any letter case.
\<close>

theorem withMyPosts_only_MyDiscussions:
  "(tl_name feed \<noteq> ''MyDiscussions'' \<longrightarrow>
      withMyPosts (effectiveParams feed v ps) = False \<and>
      (\<forall>b. genericTimeline db feed v (ps\<lparr> withMyPosts := b \<rparr>) = genericTimeline db feed v ps)) \<and>
   (tl_name feed = ''MyDiscussions'' \<and> withMyPosts ps \<longrightarrow>
      withMyPosts (effectiveParams feed v ps) \<and>
      src_authorsIds (resolveSources db feed v (effectiveParams feed v ps)) = [v] \<and>
      fetchPostsIds db feed v (effectiveParams feed v ps)
          (resolveSources db feed v (effectiveParams feed v ps)) =
        getTimelinePostsIds db ''MyDiscussions''
          [getCommentsTimelineIntId db (getUser db feed), getLikesTimelineIntId db (getUser db feed)] v
          (postsQuery (effectiveParams feed v ps)
             (resolveSources db feed v (effectiveParams feed v ps))) \<and>
      authorsIds (postsQuery (effectiveParams feed v ps)
             (resolveSources db feed v (effectiveParams feed v ps))) = [v]) \<and>
   (tl_name feed = ''MyDiscussions'' \<and> \<not> withMyPosts ps \<longrightarrow>
      src_authorsIds (resolveSources db feed v (effectiveParams feed v ps)) = []) \<and>
   (withMyPosts (getCommonParams dp c ds) \<longleftrightarrow>
      (\<exists>s. query c ''with-my-posts'' = Some s \<and>
           toLowerCase s \<in> {''yes'', ''true'', ''1'', ''on''}))"
proof -
  have a: "tl_name feed \<noteq> ''MyDiscussions'' \<Longrightarrow>
      genericTimeline db feed v (ps\<lparr> withMyPosts := b \<rparr>) = genericTimeline db feed v ps" for b
    by (simp add: genericTimeline_def effectiveParams_withMyPosts_irrelevant)
  have c: "tl_name feed = ''MyDiscussions'' \<Longrightarrow> withMyPosts ps \<Longrightarrow>
      resolveSources db feed v (effectiveParams feed v ps) =
        \<lparr> timelineIds = [getCommentsTimelineIntId db (getUser db feed),
                          getLikesTimelineIntId db (getUser db feed)],
          src_activityFeedIds = [], src_authorsIds = [v], canViewUser = True \<rparr>"
    by (simp add: resolveSources_def effectiveParams_def Let_def)
  have d: "tl_name feed = ''MyDiscussions'' \<Longrightarrow> \<not> withMyPosts ps \<Longrightarrow>
      src_authorsIds (resolveSources db feed v (effectiveParams feed v ps)) = []"
    by (simp add: resolveSources_def effectiveParams_def Let_def)
  have e: "withMyPosts (getCommonParams dp c ds) \<longleftrightarrow>
      (\<exists>s. query c ''with-my-posts'' = Some s \<and>
           toLowerCase s \<in> {''yes'', ''true'', ''1'', ''on''})"
    by (auto simp: getCommonParams_def Let_def toLowerCase_def split: option.split)
  have f: "tl_name feed \<noteq> ''MyDiscussions'' \<Longrightarrow> withMyPosts (effectiveParams feed v ps) = False"
    by (simp add: effectiveParams_def)
  have g: "tl_name feed = ''MyDiscussions'' \<Longrightarrow> withMyPosts ps \<Longrightarrow>
      withMyPosts (effectiveParams feed v ps)"
    by (simp add: effectiveParams_def)
  show ?thesis
    using a c d e f g by (simp add: fetchPostsIds_def postsQuery_def)
qed

theorem withMyPosts_only_MyDiscussions_witness:
  "withMyPosts (getCommonParams demoDateParse
      (anonymousRequest [(''with-my-posts'', ''YES'')]) ORD_UPDATED) \<and>
   \<not> withMyPosts (getCommonParams demoDateParse
      (anonymousRequest [(''with-my-posts'', ''no'')]) ORD_UPDATED) \<and>
   src_authorsIds (resolveSources (demoDb [] []) (demoFeed ''mars'' ''MyDiscussions'') (Some ''mars'')
      (effectiveParams (demoFeed ''mars'' ''MyDiscussions'') (Some ''mars'') (demoParams 30 True)))
     = [Some ''mars''] \<and>
   src_authorsIds (resolveSources (demoDb [] []) (demoFeed ''mars'' ''MyDiscussions'') (Some ''mars'')
      (effectiveParams (demoFeed ''mars'' ''MyDiscussions'') (Some ''mars'') (demoParams 30 False)))
     = [] \<and>
   genericTimeline (demoDb [] []) (demoFeed ''mars'' ''Posts'') (Some ''mars'') (demoParams 30 True) =
   genericTimeline (demoDb [] []) (demoFeed ''mars'' ''Posts'') (Some ''mars'') (demoParams 30 False)"
proof -
  let ?yes = "anonymousRequest [(''with-my-posts'', ''YES'')]"
  let ?no = "anonymousRequest [(''with-my-posts'', ''no'')]"
  have q: "query ?yes ''with-my-posts'' = Some ''YES''" "query ?no ''with-my-posts'' = Some ''no''"
    by (simp_all add: anonymousRequest_def)
  have n: "tl_name (demoFeed ''mars'' ''MyDiscussions'') = ''MyDiscussions''"
    "tl_name (demoFeed ''mars'' ''Posts'') \<noteq> ''MyDiscussions''"
    "withMyPosts (demoParams 30 True)" "\<not> withMyPosts (demoParams 30 False)"
    "(demoParams 30 False)\<lparr> withMyPosts := True \<rparr> = demoParams 30 True"
    by (simp_all add: demoFeed_def demoParams_def defaultParams_def)
  have 1: "withMyPosts (getCommonParams demoDateParse ?yes ORD_UPDATED)"
    "\<not> withMyPosts (getCommonParams demoDateParse ?no ORD_UPDATED)"
    using withMyPosts_only_MyDiscussions
      [of "demoFeed ''mars'' ''Posts''" "Some ''mars''" "demoParams 30 False" "demoDb [] []"
        demoDateParse ?yes ORD_UPDATED]
      withMyPosts_only_MyDiscussions
      [of "demoFeed ''mars'' ''Posts''" "Some ''mars''" "demoParams 30 False" "demoDb [] []"
        demoDateParse ?no ORD_UPDATED] q
    by (simp_all add: toLowerCase_examples)
  have 2: "src_authorsIds (resolveSources (demoDb [] []) (demoFeed ''mars'' ''MyDiscussions'')
      (Some ''mars'')
      (effectiveParams (demoFeed ''mars'' ''MyDiscussions'') (Some ''mars'') (demoParams 30 True)))
     = [Some ''mars'']"
    using withMyPosts_only_MyDiscussions
      [of "demoFeed ''mars'' ''MyDiscussions''" "Some ''mars''" "demoParams 30 True" "demoDb [] []"] n
    by simp
  have 3: "src_authorsIds (resolveSources (demoDb [] []) (demoFeed ''mars'' ''MyDiscussions'')
      (Some ''mars'')
      (effectiveParams (demoFeed ''mars'' ''MyDiscussions'') (Some ''mars'') (demoParams 30 False)))
     = []"
    using withMyPosts_only_MyDiscussions
      [of "demoFeed ''mars'' ''MyDiscussions''" "Some ''mars''" "demoParams 30 False" "demoDb [] []"] n
    by simp
  have 4: "genericTimeline (demoDb [] []) (demoFeed ''mars'' ''Posts'') (Some ''mars'')
             (demoParams 30 True) =
           genericTimeline (demoDb [] []) (demoFeed ''mars'' ''Posts'') (Some ''mars'')
             (demoParams 30 False)"
    using withMyPosts_only_MyDiscussions
      [of "demoFeed ''mars'' ''Posts''" "Some ''mars''" "demoParams 30 False" "demoDb [] []"] n
    by (metis (no_types))
  show ?thesis using 1 2 3 4 by simp
qed

lemma getPostsWithStuffByIds_length:
  "length (getPostsWithStuffByIds db ids v ps) \<le> length ids"
  by (simp add: getPostsWithStuffByIds_def List.map_filter_def)

lemma getPostsWithStuffByIds_Nil: "getPostsWithStuffByIds db [] v ps = []"
  by (simp add: getPostsWithStuffByIds_def List.map_filter_def)

lemma buildResult_fields:
  "timelines (buildResult db feed v ps h cv lp ids) =
     \<lparr> t_id = tl_id feed, t_name = tl_name feed, t_user = tl_userId feed, t_posts = ids,
       t_subscribers = (if cv then getTimelineSubscribersIds db (tl_id feed) else []) \<rparr>"
  "isLastPage (buildResult db feed v ps h cv lp ids) = lp"
  "posts (buildResult db feed v ps h cv lp ids) =
     map (mkSPost db h) (getPostsWithStuffByIds db ids v ps)"
  by (simp_all add: buildResult_def Let_def)

lemma genericTimeline_page:
  assumes "0 \<le> limit ps"
  shows "genericTimeline db feed v ps =
     Inr (buildResult db feed v (effectiveParams feed v ps)
            (case v of None \<Rightarrow> 0
             | Some w \<Rightarrow> if w = [] then 0 else tl_intId (getUserNamedFeed db w ''Hides''))
            (canViewUser (resolveSources db feed v (effectiveParams feed v ps)))
            (int (length (fetchPostsIds db feed v (effectiveParams feed v ps)
                (resolveSources db feed v (effectiveParams feed v ps)))) \<le> limit ps)
            (take (nat (limit ps))
               (fetchPostsIds db feed v (effectiveParams feed v ps)
                  (resolveSources db feed v (effectiveParams feed v ps)))))"
  using assms
  by (simp add: genericTimeline_def Let_def setLength_def limit_effectiveParams)

lemma genericTimeline_negative:
  "limit ps < 0 \<Longrightarrow> genericTimeline db feed v ps = Inl RangeError"
  by (simp add: genericTimeline_def Let_def setLength_def limit_effectiveParams)

lemma userTimelineParams_limit:
  "limit (userTimelineParams dp n c) = limit (getCommonParams dp c ORD_UPDATED)"
  by (simp add: userTimelineParams_def limit_spread)

lemma denied_result:
  assumes "\<not> canViewUser (resolveSources db feed v (effectiveParams feed v ps))"
    and "0 \<le> limit ps"
  shows "\<exists>r. genericTimeline db feed v ps = Inr r \<and> posts r = [] \<and> t_posts (timelines r) = [] \<and>
           t_id (timelines r) = tl_id feed \<and> t_name (timelines r) = tl_name feed \<and>
           t_user (timelines r) = tl_userId feed \<and> isLastPage r"
proof -
  have f: "fetchPostsIds db feed v (effectiveParams feed v ps)
             (resolveSources db feed v (effectiveParams feed v ps)) = []"
    using assms(1) by (simp add: fetchPostsIds_def)
  show ?thesis
    using assms(2)
    by (simp add: genericTimeline_page f buildResult_fields getPostsWithStuffByIds_Nil)
qed

lemma denied_only_user_feeds:
  "\<not> canViewUser (resolveSources db feed v ps) \<Longrightarrow>
   tl_name feed \<in> {''Posts'', ''Comments'', ''Likes''}"
  by (auto simp: resolveSources_def Let_def split: if_splits prod.splits)

text \<open>
  C1. When the access check of \<open>genericTimeline\<close> fails (which happens only for a Posts,
  Comments or Likes feed), the call returns a result, not an error: the list of posts and
  the list of post ids are empty, the page is the last one, and the id, the name and the
  owner id under \<open>timelines\<close> are those of the requested timeline. This holds for a limit
  that is not negative, and so for every request that \<open>userTimeline\<close> serves, whose limit
  comes from \<open>getCommonParams\<close>.
\<close>

theorem denied_read_keeps_identity:
  "(\<not> canViewUser (resolveSources db feed v (effectiveParams feed v ps)) \<and> 0 \<le> limit ps \<longrightarrow>
      tl_name feed \<in> {''Posts'', ''Comments'', ''Likes''} \<and>
      (\<exists>r. genericTimeline db feed v ps = Inr r \<and>
           posts r = [] \<and> t_posts (timelines r) = [] \<and>
           t_id (timelines r) = tl_id feed \<and> t_name (timelines r) = tl_name feed \<and>
           t_user (timelines r) = tl_userId feed \<and> isLastPage r)) \<and>
   (state_targetUser c = Some t \<and>
    \<not> canViewUser (resolveSources db (getUserNamedFeed db (u_id t) n) (viewerIdOf c)
          (effectiveParams (getUserNamedFeed db (u_id t) n) (viewerIdOf c)
             (userTimelineParams dp n c))) \<longrightarrow>
      (\<exists>r. userTimeline db dp n c = Inr r \<and>
           posts r = [] \<and> t_posts (timelines r) = [] \<and>
           t_id (timelines r) = tl_id (getUserNamedFeed db (u_id t) n) \<and>
           t_name (timelines r) = tl_name (getUserNamedFeed db (u_id t) n) \<and>
           t_user (timelines r) = tl_userId (getUserNamedFeed db (u_id t) n) \<and> isLastPage r))"
proof -
  have l: "0 \<le> limit (userTimelineParams dp n c)"
    by (simp add: userTimelineParams_limit getCommonParams_limit_range)
  show ?thesis
    using denied_result [of db feed v ps] denied_only_user_feeds [of db feed v]
      denied_result [of db "getUserNamedFeed db (u_id t) n" "viewerIdOf c"
        "userTimelineParams dp n c", OF _ l]
    by (auto simp: userTimeline_def)
qed

theorem denied_read_keeps_identity_witness:
  "(\<exists>r. genericTimeline (demoDb [] []) (demoFeed ''luna'' ''Posts'') (Some ''mars'')
          (demoParams 30 False) = Inr r \<and>
        posts r = [] \<and> t_posts (timelines r) = [] \<and> t_id (timelines r) = ''luna/Posts'' \<and>
        t_name (timelines r) = ''Posts'' \<and> t_user (timelines r) = ''luna'') \<and>
   (\<exists>r. userTimeline (demoDb [] []) demoDateParse ''Posts'' (userRequest (Some mars) luna []) = Inr r \<and>
        posts r = [] \<and> t_posts (timelines r) = [] \<and> t_id (timelines r) = ''luna/Posts'' \<and>
        t_name (timelines r) = ''Posts'' \<and> t_user (timelines r) = ''luna'')"
proof -
  let ?db = "demoDb [] [] :: string dbAdapter"
  let ?c = "userRequest (Some mars) luna []"
  have f: "getUserNamedFeed ?db (u_id luna) ''Posts'' = demoFeed ''luna'' ''Posts''"
    "viewerIdOf ?c = Some ''mars''" "state_targetUser ?c = Some luna"
    "tl_id (demoFeed ''luna'' ''Posts'') = ''luna/Posts''"
    "tl_name (demoFeed ''luna'' ''Posts'') = ''Posts''"
    "tl_userId (demoFeed ''luna'' ''Posts'') = ''luna''"
    by (simp_all add: demo_defs viewerIdOf_def)
  have h1: "\<not> canViewUser (resolveSources ?db (demoFeed ''luna'' ''Posts'') (Some ''mars'') qs)" for qs
    by (simp add: demo_defs model_defs Let_def)
  have h2: "0 \<le> limit (demoParams 30 False)"
    by (simp add: demo_defs)
  show ?thesis
    using denied_read_keeps_identity
      [of ?db "demoFeed ''luna'' ''Posts''" "Some ''mars''" "demoParams 30 False" ?c luna
        "''Posts''" demoDateParse] h1 h2 f
    by auto
qed

text \<open>
  C6. For a viewer who is not signed in, the access check on a Posts, Comments or Likes
  feed is true exactly when the owner's \<open>isProtected\<close> is \<open>'0'\<close>; for a protected owner
  it is false and the read returns an empty list of posts.
\<close>

theorem anonymous_canView:
  assumes "tl_name feed \<in> {''Posts'', ''Comments'', ''Likes''}"
    and "v = None \<or> v = Some []"
  shows "canViewUser (resolveSources db feed v (effectiveParams feed v ps)) =
           (isProtected (getUser db feed) = ''0'') \<and>
         (isProtected (getUser db feed) = ''1'' \<longrightarrow>
            \<not> canViewUser (resolveSources db feed v (effectiveParams feed v ps))) \<and>
         (isProtected (getUser db feed) \<noteq> ''0'' \<and> 0 \<le> limit ps \<longrightarrow>
            (\<exists>r. genericTimeline db feed v ps = Inr r \<and> posts r = [] \<and>
                 t_posts (timelines r) = []))"
proof -
  have t: "\<not> truthy v" using assms(2) by (auto simp: truthy_def)
  have c: "canViewUser (resolveSources db feed v (effectiveParams feed v ps)) =
           (isProtected (getUser db feed) = ''0'')"
    using assms(1) t by (auto simp: resolveSources_def Let_def)
  show ?thesis
    using c denied_result [of db feed v ps] by auto
qed

theorem anonymous_canView_witness:
  "\<not> canViewUser (resolveSources (demoDb [] []) (demoFeed ''luna'' ''Posts'') None
        (effectiveParams (demoFeed ''luna'' ''Posts'') None (demoParams 30 False))) \<and>
   canViewUser (resolveSources (demoDb [] []) (demoFeed ''mars'' ''Likes'') None
        (effectiveParams (demoFeed ''mars'' ''Likes'') None (demoParams 30 False))) \<and>
   (\<exists>r. genericTimeline (demoDb [] []) (demoFeed ''luna'' ''Posts'') None (demoParams 30 False)
          = Inr r \<and> posts r = [] \<and> t_posts (timelines r) = [])"
proof -
  let ?db = "demoDb [] [] :: string dbAdapter"
  have n: "tl_name (demoFeed ''luna'' ''Posts'') \<in> {''Posts'', ''Comments'', ''Likes''}"
    "tl_name (demoFeed ''mars'' ''Likes'') \<in> {''Posts'', ''Comments'', ''Likes''}"
    by (simp_all add: demo_defs)
  have o: "isProtected (getUser ?db (demoFeed ''luna'' ''Posts'')) = ''1''"
    "isProtected (getUser ?db (demoFeed ''mars'' ''Likes'')) = ''0''"
    "0 \<le> limit (demoParams 30 False)"
    by (simp_all add: demo_defs)
  show ?thesis
    using anonymous_canView [OF n(1), of None ?db "demoParams 30 False"]
      anonymous_canView [OF n(2), of None ?db "demoParams 30 False"] o
    by simp
qed

lemma banned_both_directions:
  "(a, b) \<in> set (bans db) \<or> (b, a) \<in> set (bans db) \<Longrightarrow>
   b \<in> set (getUsersBansOrWasBannedBy db (Some a))"
  by (force simp: getUsersBansOrWasBannedBy_def)

lemma canViewUser_banned:
  assumes "tl_name feed \<in> {''Posts'', ''Comments'', ''Likes''}"
    and "a \<noteq> []" and "a \<noteq> u_id (getUser db feed)"
    and "u_id (getUser db feed) \<in> set (getUsersBansOrWasBannedBy db (Some a))"
  shows "\<not> canViewUser (resolveSources db feed (Some a) ps)"
  using assms by (auto simp: resolveSources_def Let_def truthy_def)

text \<open>
  C2. Let two different users be in a ban relation, in either direction. When one of them
  reads a Posts, Comments or Likes feed of the other, the list of posts and the list of
  post ids of the result are empty. Nothing is assumed about subscriptions or about the
  privacy of the owner. User ids are not empty; the limit is not negative.
\<close>

theorem ban_relation_empties_feeds:
  assumes "(a, b) \<in> set (bans db) \<or> (b, a) \<in> set (bans db)"
    and "a \<noteq> b" and "a \<noteq> []" and "b \<noteq> []"
    and "tl_name feedA \<in> {''Posts'', ''Comments'', ''Likes''}"
    and "tl_name feedB \<in> {''Posts'', ''Comments'', ''Likes''}"
    and "u_id (getUser db feedA) = a" and "u_id (getUser db feedB) = b"
    and "0 \<le> limit ps"
  shows "(\<exists>r. genericTimeline db feedB (Some a) ps = Inr r \<and> posts r = [] \<and>
              t_posts (timelines r) = []) \<and>
         (\<exists>r. genericTimeline db feedA (Some b) ps = Inr r \<and> posts r = [] \<and>
              t_posts (timelines r) = [])"
proof -
  have 1: "b \<in> set (getUsersBansOrWasBannedBy db (Some a))"
    using assms(1) by (rule banned_both_directions)
  have 2: "a \<in> set (getUsersBansOrWasBannedBy db (Some b))"
    using assms(1) by (intro banned_both_directions) blast
  have "\<not> canViewUser (resolveSources db feedB (Some a) (effectiveParams feedB (Some a) ps))"
    using assms 1 by (intro canViewUser_banned) auto
  moreover
  have "\<not> canViewUser (resolveSources db feedA (Some b) (effectiveParams feedA (Some b) ps))"
    using assms 2 by (intro canViewUser_banned) auto
  ultimately show ?thesis
    using denied_result assms(9) by blast
qed

theorem ban_relation_empties_feeds_witness:
  "(\<exists>r. genericTimeline (demoDb [(''luna'', ''mars'')] [''mars'']) (demoFeed ''luna'' ''Posts'')
          (Some ''mars'') (demoParams 30 False) = Inr r \<and>
        posts r = [] \<and> t_posts (timelines r) = []) \<and>
   (\<exists>r. genericTimeline (demoDb [(''luna'', ''mars'')] [''mars'']) (demoFeed ''mars'' ''Comments'')
          (Some ''luna'') (demoParams 30 False) = Inr r \<and>
        posts r = [] \<and> t_posts (timelines r) = []) \<and>
   (\<exists>r. genericTimeline (demoDb [] [''mars'']) (demoFeed ''luna'' ''Posts'')
          (Some ''mars'') (demoParams 30 False) = Inr r \<and>
        t_posts (timelines r) = [''p1'', ''p2'', ''p3''])"
proof -
  let ?db = "demoDb [(''luna'', ''mars'')] [''mars''] :: string dbAdapter"
  have h: "(''luna'', ''mars'') \<in> set (bans ?db) \<or> (''mars'', ''luna'') \<in> set (bans ?db)"
    "''luna'' \<noteq> ''mars''" "''luna'' \<noteq> []" "''mars'' \<noteq> []"
    "tl_name (demoFeed ''luna'' ''Posts'') \<in> {''Posts'', ''Comments'', ''Likes''}"
    "tl_name (demoFeed ''mars'' ''Comments'') \<in> {''Posts'', ''Comments'', ''Likes''}"
    "u_id (getUser ?db (demoFeed ''luna'' ''Posts'')) = ''luna''"
    "u_id (getUser ?db (demoFeed ''mars'' ''Comments'')) = ''mars''"
    "0 \<le> limit (demoParams 30 False)"
    by (simp_all add: demo_defs)
  have free: "\<exists>r. genericTimeline (demoDb [] [''mars'']) (demoFeed ''luna'' ''Posts'')
          (Some ''mars'') (demoParams 30 False) = Inr r \<and>
        t_posts (timelines r) = [''p1'', ''p2'', ''p3'']"
    by (simp add: demo_defs model_defs Let_def)
  show ?thesis
    using ban_relation_empties_feeds [OF h] free by blast
qed

text \<open>
  Paging in \<open>genericTimeline\<close>. Let \<open>L\<close> be the limit of a read, not negative. The adapter
  is asked for post ids with limit \<open>L + 1\<close> and the first \<open>L\<close> of the ids it returns are
  kept; the page is reported as not the last one when the adapter returned at least
  \<open>L + 1\<close> ids and as the last one when it returned at most \<open>L\<close>; the result holds at most
  \<open>L\<close> post ids and at most \<open>L\<close> posts. Every request served by \<open>userTimeline\<close> or
  \<open>ownTimeline\<close> has such a limit.
\<close>

lemma page_fetch_and_cut:
  "(0 \<le> limit ps \<longrightarrow>
      limit (postsQuery (effectiveParams feed v ps)
               (resolveSources db feed v (effectiveParams feed v ps))) = limit ps + 1 \<and>
      (canViewUser (resolveSources db feed v (effectiveParams feed v ps)) \<longrightarrow>
         fetchPostsIds db feed v (effectiveParams feed v ps)
             (resolveSources db feed v (effectiveParams feed v ps)) =
           getTimelinePostsIds db (tl_name feed)
             (timelineIds (resolveSources db feed v (effectiveParams feed v ps))) v
             (postsQuery (effectiveParams feed v ps)
                (resolveSources db feed v (effectiveParams feed v ps)))) \<and>
      (\<exists>r. genericTimeline db feed v ps = Inr r \<and>
           t_posts (timelines r) =
             take (nat (limit ps))
               (fetchPostsIds db feed v (effectiveParams feed v ps)
                  (resolveSources db feed v (effectiveParams feed v ps))) \<and>
           (limit ps + 1 \<le> int (length (fetchPostsIds db feed v (effectiveParams feed v ps)
                  (resolveSources db feed v (effectiveParams feed v ps)))) \<longrightarrow> \<not> isLastPage r) \<and>
           (int (length (fetchPostsIds db feed v (effectiveParams feed v ps)
                  (resolveSources db feed v (effectiveParams feed v ps)))) \<le> limit ps \<longrightarrow>
              isLastPage r) \<and>
           int (length (t_posts (timelines r))) \<le> limit ps \<and>
           int (length (posts r)) \<le> limit ps)) \<and>
   (state_targetUser c \<noteq> None \<longrightarrow>
      (\<exists>r. userTimeline db dp feedName c = Inr r \<and>
           int (length (t_posts (timelines r))) \<le> limit (getCommonParams dp c ORD_UPDATED) \<and>
           int (length (posts r)) \<le> limit (getCommonParams dp c ORD_UPDATED))) \<and>
   (state_user c \<noteq> None \<longrightarrow>
      (\<exists>r. ownTimeline db dp feedName base c = Inr r \<and>
           int (length (t_posts (timelines r))) \<le> limit (getCommonParams dp c ORD_UPDATED) \<and>
           int (length (posts r)) \<le> limit (getCommonParams dp c ORD_UPDATED)))"
proof -
  have g: "0 \<le> limit qs \<Longrightarrow>
      \<exists>r. genericTimeline db fd w qs = Inr r \<and>
           t_posts (timelines r) =
             take (nat (limit qs))
               (fetchPostsIds db fd w (effectiveParams fd w qs)
                  (resolveSources db fd w (effectiveParams fd w qs))) \<and>
           (limit qs + 1 \<le> int (length (fetchPostsIds db fd w (effectiveParams fd w qs)
                  (resolveSources db fd w (effectiveParams fd w qs)))) \<longrightarrow> \<not> isLastPage r) \<and>
           (int (length (fetchPostsIds db fd w (effectiveParams fd w qs)
                  (resolveSources db fd w (effectiveParams fd w qs)))) \<le> limit qs \<longrightarrow>
              isLastPage r) \<and>
           int (length (t_posts (timelines r))) \<le> limit qs \<and>
           int (length (posts r)) \<le> limit qs" for fd w qs
  proof -
    assume l: "0 \<le> limit qs"
    let ?found = "fetchPostsIds db fd w (effectiveParams fd w qs)
                  (resolveSources db fd w (effectiveParams fd w qs))"
    have "length (getPostsWithStuffByIds db (take (nat (limit qs)) ?found) w
             (effectiveParams fd w qs)) \<le> length (take (nat (limit qs)) ?found)"
      by (rule getPostsWithStuffByIds_length)
    also have "\<dots> \<le> nat (limit qs)" by simp
    finally have "int (length (getPostsWithStuffByIds db (take (nat (limit qs)) ?found) w
             (effectiveParams fd w qs))) \<le> limit qs"
      using l by linarith
    then show ?thesis
      using l by (simp add: genericTimeline_page buildResult_fields)
  qed
  have q: "limit (postsQuery (effectiveParams feed v ps)
               (resolveSources db feed v (effectiveParams feed v ps))) = limit ps + 1"
    by (simp add: postsQuery_def limit_effectiveParams)
  have f: "canViewUser (resolveSources db feed v (effectiveParams feed v ps)) \<Longrightarrow>
         fetchPostsIds db feed v (effectiveParams feed v ps)
             (resolveSources db feed v (effectiveParams feed v ps)) =
           getTimelinePostsIds db (tl_name feed)
             (timelineIds (resolveSources db feed v (effectiveParams feed v ps))) v
             (postsQuery (effectiveParams feed v ps)
                (resolveSources db feed v (effectiveParams feed v ps)))"
    by (simp add: fetchPostsIds_def)
  have u: "state_targetUser c \<noteq> None \<Longrightarrow>
      \<exists>r. userTimeline db dp feedName c = Inr r \<and>
           int (length (t_posts (timelines r))) \<le> limit (getCommonParams dp c ORD_UPDATED) \<and>
           int (length (posts r)) \<le> limit (getCommonParams dp c ORD_UPDATED)"
  proof -
    assume "state_targetUser c \<noteq> None"
    then obtain t where t: "state_targetUser c = Some t" by auto
    have "0 \<le> limit (userTimelineParams dp feedName c)"
      by (simp add: userTimelineParams_limit getCommonParams_limit_range)
    from g [OF this, of "getUserNamedFeed db (u_id t) feedName" "viewerIdOf c"]
    show ?thesis
      by (auto simp: userTimeline_def t userTimelineParams_limit)
  qed
  have o: "state_user c \<noteq> None \<Longrightarrow>
      \<exists>r. ownTimeline db dp feedName base c = Inr r \<and>
           int (length (t_posts (timelines r))) \<le> limit (getCommonParams dp c ORD_UPDATED) \<and>
           int (length (posts r)) \<le> limit (getCommonParams dp c ORD_UPDATED)"
  proof -
    assume "state_user c \<noteq> None"
    then obtain w where w: "state_user c = Some w" by auto
    have "0 \<le> limit (spread base (getCommonParams dp c ORD_UPDATED))"
      by (simp add: limit_spread getCommonParams_limit_range)
    from g [OF this, of "getUserNamedFeed db (u_id w) feedName" "Some (u_id w)"]
    show ?thesis
      by (auto simp: ownTimeline_def w limit_spread)
  qed
  show ?thesis
    using g [of ps feed v] q f u o by blast
qed

lemma page_fetch_and_cut_examples:
  "(\<exists>r. genericTimeline (demoDb [] []) (demoFeed ''mars'' ''Posts'') (Some ''mars'')
          (demoParams 2 False) = Inr r \<and>
        t_posts (timelines r) = [''p1'', ''p2''] \<and> \<not> isLastPage r \<and> int (length (posts r)) \<le> 2) \<and>
   (\<exists>r. genericTimeline (demoDb [] []) (demoFeed ''mars'' ''Posts'') (Some ''mars'')
          (demoParams 3 False) = Inr r \<and>
        t_posts (timelines r) = [''p1'', ''p2'', ''p3''] \<and> isLastPage r) \<and>
   (\<exists>r. userTimeline (demoDb [] []) demoDateParse ''Posts''
          (userRequest None mars [(''limit'', ''500'')]) = Inr r \<and>
        int (length (t_posts (timelines r))) \<le> 30)"
proof -
  let ?db = "demoDb [] [] :: string dbAdapter"
  let ?feed = "demoFeed ''mars'' ''Posts''"
  let ?d = "userRequest None mars [(''limit'', ''500'')]"
  have found2: "fetchPostsIds ?db ?feed (Some ''mars'') (effectiveParams ?feed (Some ''mars'') (demoParams 2 False))
      (resolveSources ?db ?feed (Some ''mars'') (effectiveParams ?feed (Some ''mars'') (demoParams 2 False)))
      = [''p1'', ''p2'', ''p3'']"
    by (simp add: demo_defs model_defs Let_def)
  have found3: "fetchPostsIds ?db ?feed (Some ''mars'') (effectiveParams ?feed (Some ''mars'') (demoParams 3 False))
      (resolveSources ?db ?feed (Some ''mars'') (effectiveParams ?feed (Some ''mars'') (demoParams 3 False)))
      = [''p1'', ''p2'', ''p3'']"
    by (simp add: demo_defs model_defs Let_def)
  have l: "limit (demoParams 2 False) = 2" "limit (demoParams 3 False) = 3"
    by (simp_all add: demo_defs)
  have p: "parseInt (query ?d ''limit'') = Some 500"
    by (simp add: userRequest_def parseInt_examples)
  have t: "state_targetUser ?d \<noteq> None"
    by (simp add: userRequest_def)
  have lim: "limit (getCommonParams demoDateParse ?d ORD_UPDATED) = 30"
    by (simp add: getCommonParams_def Let_def p)
  have 1: "\<exists>r. genericTimeline ?db ?feed (Some ''mars'') (demoParams 2 False) = Inr r \<and>
        t_posts (timelines r) = [''p1'', ''p2''] \<and> \<not> isLastPage r \<and> int (length (posts r)) \<le> 2"
    using page_fetch_and_cut [of "demoParams 2 False" ?feed "Some ''mars''" ?db ?d demoDateParse "''Posts''" defaultParams]
    by (auto simp: found2 l)
  have 2: "\<exists>r. genericTimeline ?db ?feed (Some ''mars'') (demoParams 3 False) = Inr r \<and>
        t_posts (timelines r) = [''p1'', ''p2'', ''p3''] \<and> isLastPage r"
    using page_fetch_and_cut [of "demoParams 3 False" ?feed "Some ''mars''" ?db ?d demoDateParse "''Posts''" defaultParams]
    by (auto simp: found3 l)
  have 3: "\<exists>r. userTimeline ?db demoDateParse ''Posts'' ?d = Inr r \<and>
        int (length (t_posts (timelines r))) \<le> 30"
    using page_fetch_and_cut [of "demoParams 3 False" ?feed "Some ''mars''" ?db ?d demoDateParse "''Posts''" defaultParams]
      t lim
    by auto
  show ?thesis
    using 1 2 3 by blast
qed

section \<open>Properties of \<open>bestOf\<close>\<close>

lemma roundMagnitude_small: "m < 2 ^ 53 \<Longrightarrow> roundMagnitude m = m"
  by (simp add: roundMagnitude_def)

lemma toNumber_exact: "\<bar>n\<bar> < 2 ^ 53 \<Longrightarrow> toNumber n = Finite n"
proof -
  assume a: "\<bar>n\<bar> < 2 ^ 53"
  then have m: "nat \<bar>n\<bar> < 2 ^ 53"
    by (simp add: nat_less_iff)
  have "(2::nat) ^ 53 \<le> 2 ^ 1024" by (rule power_increasing) simp_all
  with m have "\<not> (2::nat) ^ 1024 \<le> nat \<bar>n\<bar>" by linarith
  then show ?thesis
    using m by (simp add: toNumber_def roundMagnitude_small Let_def)
qed

lemma bitLength_bound: "0 < m \<Longrightarrow> 2 ^ (bitLength m - 1) \<le> m"
proof (induction m rule: bitLength.induct)
  case (1 n)
  show ?case
  proof (cases "n div 2 = 0")
    case True
    then have "n = 1" using 1(2) by auto
    then show ?thesis by (simp add: bitLength.simps)
  next
    case False
    then have "2 ^ (bitLength (n div 2) - 1) \<le> n div 2"
      using 1 by simp
    moreover have "bitLength n = Suc (bitLength (n div 2))"
      using 1(2) by (subst bitLength.simps) simp
    moreover have "0 < bitLength (n div 2)"
      using False by (subst bitLength.simps) simp
    ultimately have "2 ^ (bitLength n - 1) \<le> 2 * (n div 2)"
      by (cases "bitLength (n div 2)") simp_all
    then show ?thesis by linarith
  qed
qed

lemma roundMagnitude_pos: "0 < m \<Longrightarrow> 0 < roundMagnitude m"
proof -
  assume p: "0 < m"
  show ?thesis
  proof (cases "m < 2 ^ 53")
    case True
    then show ?thesis using p by (simp add: roundMagnitude_small)
  next
    case False
    have "(2::nat) ^ (bitLength m - 53) \<le> 2 ^ (bitLength m - 1)"
      by (rule power_increasing) simp_all
    also have "\<dots> \<le> m" using p by (rule bitLength_bound)
    finally have "0 < m div 2 ^ (bitLength m - 53)"
      by (simp add: div_greater_zero_iff)
    then show ?thesis
      using False by (simp add: roundMagnitude_def Let_def)
  qed
qed

lemma toNumber_negative:
  "n < 0 \<Longrightarrow> toNumber n = NegInfinity \<or> (\<exists>k. k < 0 \<and> toNumber n = Finite k)"
  using roundMagnitude_pos [of "nat \<bar>n\<bar>"]
  by (simp add: toNumber_def Let_def)

text \<open>
  With a limit that is positive and, increased by one, below \<open>2^53\<close>, \<open>bestOf\<close> pages as
  \<open>genericTimeline\<close> does: it asks for \<open>L + 1\<close> posts, keeps the first \<open>L\<close> and reports
  the last page when at most \<open>L\<close> were found.
\<close>

lemma bestOfPage_valid_limit:
  assumes "parseInt (query c ''limit'') = Some n" and "0 < n" and "n + 1 < 2 ^ 53"
  shows "bestOfPage db c =
     Inr (take (nat n)
            (bestPosts db (state_user c)
               (orDefault (map_option toNumber (parseInt (query c ''offset''))) (Finite 0))
               (Finite (n + 1))),
          int (length (bestPosts db (state_user c)
               (orDefault (map_option toNumber (parseInt (query c ''offset''))) (Finite 0))
               (Finite (n + 1)))) \<le> n)"
proof -
  have "toNumber n = Finite n" "toNumber (n + 1) = Finite (n + 1)"
    using assms(2,3) by (simp_all add: toNumber_exact)
  then show ?thesis
    using assms(1,2)
    by (simp add: bestOfPage_def Let_def orDefault_def plusOne_def lengthLe_def
        setLengthNumber_def setLength_def)
qed

text \<open>
  From \<open>2^53\<close> on the sum \<open>limit + 1\<close> is rounded back to \<open>limit\<close>: the adapter is asked
  for \<open>L\<close> posts, not for \<open>L + 1\<close>.
\<close>

lemma plusOne_lost: "plusOne (Finite (2 ^ 53)) = Finite (2 ^ 53)"
  by (simp add: plusOne_def toNumber_def roundMagnitude_def Let_def bitLength.simps)

text \<open>
  Every negative limit makes \<open>bestOf\<close> fail: no page is last for a negative limit, and
  the assignment of a negative length raises a RangeError.
\<close>

lemma bestOfPage_negative:
  assumes "parseInt (query c ''limit'') = Some n" and "n < 0"
  shows "bestOfPage db c = Inl RangeError"
proof -
  from toNumber_negative [OF assms(2)]
  show ?thesis
  proof
    assume "toNumber n = NegInfinity"
    then show ?thesis
      using assms(1)
      by (simp add: bestOfPage_def Let_def orDefault_def lengthLe_def setLengthNumber_def)
  next
    assume "\<exists>k. k < 0 \<and> toNumber n = Finite k"
    then obtain k where "k < 0" "toNumber n = Finite k" by auto
    then show ?thesis
      using assms(1)
      by (simp add: bestOfPage_def Let_def orDefault_def lengthLe_def setLengthNumber_def
          setLength_def)
  qed
qed

text \<open>
  C3. The claim holds for \<open>genericTimeline\<close> (lemma \<open>page_fetch_and_cut\<close>), whose limit
  \<open>getCommonParams\<close> keeps between 0 and 120. \<open>bestOf\<close> takes its limit from the query
  without that check, and the request \<open>limit=-5\<close> does not return a page at all: for
  every adapter and every viewer it ends in a RangeError.
\<close>

theorem bestOf_negative_limit_raises:
  "bestOf db \<lparr> query = map_of [(''limit'', ''-5'')], state_user = viewer,
               state_targetUser = target \<rparr> = Inl RangeError"
proof -
  have "parseInt (query \<lparr> query = map_of [(''limit'', ''-5'')], state_user = viewer,
               state_targetUser = target \<rparr> ''limit'') = Some (- 5)"
    by (simp add: parseInt_def parseDigits_def digitsVal_def digitVal_def isDigit_def
        isWhiteSpace_def)
  then have "bestOfPage db \<lparr> query = map_of [(''limit'', ''-5'')], state_user = viewer,
               state_targetUser = target \<rparr> = Inl RangeError"
    by (rule bestOfPage_negative) simp
  then show ?thesis
    by (simp add: bestOf_def)
qed

section \<open>Properties of the Comment model\<close>

lemma all_dropWhile: "(\<forall>x\<in>set (dropWhile P s). P x) \<longleftrightarrow> (\<forall>x\<in>set s. P x)"
  by (induction s) auto

lemma trim_Nil_iff: "trim s = [] \<longleftrightarrow> list_all isWhiteSpace s"
  by (simp add: trim_def list_all_iff dropWhile_eq_Nil_conv all_dropWhile)

lemma setBody_empty_iff:
  "setBody v = [] \<longleftrightarrow> (case v of None \<Rightarrow> True | Some s \<Rightarrow> list_all isWhiteSpace s)"
  by (auto simp: setBody_def trim_Nil_iff split: option.split)

lemma valid_stamps: "valid (c\<lparr> c_createdAt := a, c_updatedAt := b \<rparr>) = valid c"
  by (simp add: valid_def)

lemma create_invalid:
  "\<not> valid c \<Longrightarrow>
   create env now1 now2 c s =
     (Inl (Error ''Invalid''),
      c\<lparr> c_createdAt := Some (Num now1), c_updatedAt := Some (Num now2) \<rparr>, s)"
  by (simp add: create_def validate_def valid_stamps Let_def)

lemma create_valid_not_rejected:
  "valid c \<Longrightarrow> fst (create env now1 now2 c s) \<noteq> Inl (Error ''Invalid'')"
  by (simp add: create_def validate_def valid_stamps Let_def split: prod.split option.split)

text \<open>
  C5. A comment built from parameters whose body is absent, empty or made of white space
  only, or whose user id or post id is absent (or empty), is rejected by \<open>create\<close> with
  the error \<open>Invalid\<close>, and the store that \<open>create\<close> returns is the store it was given,
  whatever the operations of the environment are: no write and no fan-out has been
  applied. Only the two time stamps of the comment object itself have been set.
\<close>

theorem create_rejects_invalid_comment:
  assumes "(case pr_body ps of None \<Rightarrow> True | Some b \<Rightarrow> list_all isWhiteSpace b) \<or>
           pr_userId ps = None \<or> pr_userId ps = Some [] \<or>
           pr_postId ps = None \<or> pr_postId ps = Some []"
  shows "create env now1 now2 (Comment ps) s =
           (Inl (Error ''Invalid''),
            (Comment ps)\<lparr> c_createdAt := Some (Num now1), c_updatedAt := Some (Num now2) \<rparr>, s)"
proof -
  have "\<not> valid (Comment ps)"
    using assms setBody_empty_iff [of "pr_body ps"]
    by (auto simp: valid_def Comment_def truthy_def)
  then show ?thesis by (rule create_invalid)
qed

theorem create_rejects_invalid_comment_witness:
  "fst (create specEnv 5 6 (marsComment [CHR '' '', CHR 0x09, CHR '' '']) freshStore)
     = Inl (Error ''Invalid'') \<and>
   snd (snd (create specEnv 5 6 (marsComment [CHR '' '', CHR 0x09, CHR '' '']) freshStore))
     = freshStore \<and>
   fst (create specEnv 5 6
          (Comment \<lparr> pr_id = None, pr_body = Some ''hello'', pr_userId = None,
                     pr_postId = Some ''p1'', pr_createdAt = None, pr_updatedAt = None \<rparr>)
          freshStore) = Inl (Error ''Invalid'') \<and>
   snd (snd (create specEnv 5 6
          (Comment \<lparr> pr_id = None, pr_body = Some ''hello'', pr_userId = None,
                     pr_postId = Some ''p1'', pr_createdAt = None, pr_updatedAt = None \<rparr>)
          freshStore)) = freshStore"
proof -
  let ?blank = "\<lparr> pr_id = None, pr_body = Some [CHR '' '', CHR 0x09, CHR '' ''],
                  pr_userId = Some ''mars'', pr_postId = Some ''p1'',
                  pr_createdAt = None, pr_updatedAt = None \<rparr>"
  let ?nouser = "\<lparr> pr_id = None, pr_body = Some ''hello'', pr_userId = None,
                   pr_postId = Some ''p1'', pr_createdAt = None, pr_updatedAt = None \<rparr>"
  have h1: "(case pr_body ?blank of None \<Rightarrow> True | Some b \<Rightarrow> list_all isWhiteSpace b) \<or>
           pr_userId ?blank = None \<or> pr_userId ?blank = Some [] \<or>
           pr_postId ?blank = None \<or> pr_postId ?blank = Some []"
    by (simp add: isWhiteSpace_def)
  have h2: "(case pr_body ?nouser of None \<Rightarrow> True | Some b \<Rightarrow> list_all isWhiteSpace b) \<or>
           pr_userId ?nouser = None \<or> pr_userId ?nouser = Some [] \<or>
           pr_postId ?nouser = None \<or> pr_postId ?nouser = Some []"
    by simp
  show ?thesis
    using create_rejects_invalid_comment [OF h1, of specEnv 5 6 freshStore]
      create_rejects_invalid_comment [OF h2, of specEnv 5 6 freshStore]
    by (simp add: marsComment_def)
qed

lemmas spec_defs = specEnv_def spec_createComment_def spec_deleteComment_def
  spec_removeCommentFromPost_def spec_addPostToTimeline_def spec_removePostFromTimeline_def
  spec_deletePostUsageInTimeline_def spec_findPost_def spec_getComments_def
  spec_getCommentsTimelineId_def spec_addComment_def spec_statsAddComment_def
  spec_statsRemoveComment_def spec_publish_def commentOfPayload_def

lemma list_ex_map_filter:
  "list_ex P (List.map_filter f xs) \<longleftrightarrow>
   list_ex (\<lambda>x. case f x of None \<Rightarrow> False | Some y \<Rightarrow> P y) xs"
  by (induction xs) (auto simp: List.map_filter_def split: option.split)

lemma getComments_by_user:
  assumes "post_id pst = p"
  shows "anyUserId (spec_getComments pst s) (Some u) \<longleftrightarrow> hasCommentOn s u p"
proof -
  have "(case map_option (commentOfPayload i) r of None \<Rightarrow> False | Some y \<Rightarrow> c_userId y = Some u) =
        (case r of None \<Rightarrow> False | Some q \<Rightarrow> pl_userId q = Some u)" for i r
    by (cases r) (simp_all add: commentOfPayload_def)
  then show ?thesis
    using assms
    by (simp add: anyUserId_def spec_getComments_def hasCommentOn_def list_ex_map_filter)
qed

lemma destroy_law:
  assumes "c_id c = Some i" and "c_userId c = Some u" and "c_postId c = Some p"
    and "st_posts s p = Some pst" and "post_id pst = p"
  shows "(inCommentsTimeline (snd (destroy specEnv c s)) u p \<longleftrightarrow>
            inCommentsTimeline s u p \<and> hasCommentOn (snd (destroy specEnv c s)) u p) \<and>
         (hasCommentOn (snd (destroy specEnv c s)) u p \<longrightarrow>
            st_timelinePosts (snd (destroy specEnv c s)) = st_timelinePosts s)"
proof -
  let ?s3 = "spec_removeCommentFromPost (Some p) (Some i)
               (spec_deleteComment (Some i) (spec_publish (CommentDestroyed (Some i) (Some p)) s))"
  have f: "spec_findPost (Some p) ?s3 = Some pst"
    using assms(4) by (simp add: spec_defs)
  have g: "anyUserId (spec_getComments pst ?s3) (Some u) \<longleftrightarrow> hasCommentOn ?s3 u p"
    using assms(5) by (rule getComments_by_user)
  show ?thesis
  proof (cases "hasCommentOn ?s3 u p")
    case True
    then have "destroy specEnv c s = (Inr True, ?s3)"
      using f g assms(1-3) by (simp add: destroy_def Let_def specEnv_def)
    then show ?thesis
      using True by (simp add: inCommentsTimeline_def spec_defs)
  next
    case False
    then have d: "snd (destroy specEnv c s) =
        snd (spec_statsRemoveComment (Some u)
          (spec_deletePostUsageInTimeline (Some p) (spec_getCommentsTimelineId (Some u) ?s3)
            (spec_removePostFromTimeline (spec_getCommentsTimelineId (Some u) ?s3) (Some p) ?s3)))"
      using f g assms(1-3) by (simp add: destroy_def Let_def specEnv_def split: prod.split)
    have h: "hasCommentOn (snd (destroy specEnv c s)) u p = hasCommentOn ?s3 u p"
      unfolding d by (simp add: hasCommentOn_def spec_defs)
    have m: "\<not> inCommentsTimeline (snd (destroy specEnv c s)) u p"
      unfolding d by (simp add: inCommentsTimeline_def spec_defs)
    show ?thesis using h m False by simp
  qed
qed

lemma destroy_comments:
  assumes "c_id c = Some i" and "c_userId c = Some u" and "c_postId c = Some p"
    and "st_posts s p = Some pst" and "post_id pst = p"
  shows "st_comments (snd (destroy specEnv c s)) = (st_comments s)(i := None) \<and>
         st_postComments (snd (destroy specEnv c s)) =
           (st_postComments s)(p := removeAll i (st_postComments s p))"
  using assms
  by (simp add: destroy_def Let_def spec_defs split: prod.split)

lemma create_law:
  assumes "valid c" and "c_userId c = Some u" and "c_postId c = Some p"
    and "st_posts s p = Some pst" and "post_id pst = p"
  shows "create specEnv now1 now2 c s =
     (Inr [st_commentsTimeline s u],
      c\<lparr> c_createdAt := Some (Num now1), c_updatedAt := Some (Num now2),
         c_id := Some (st_newIds s (st_next s)) \<rparr>,
      s\<lparr> st_comments := (st_comments s)(st_newIds s (st_next s) \<mapsto>
             \<lparr> pl_body = c_body c, pl_userId = Some u, pl_postId = Some p,
               pl_createdAt = numberToString now1, pl_updatedAt = numberToString now2 \<rparr>),
         st_next := Suc (st_next s),
         st_postComments := (st_postComments s)(p := st_postComments s p @ [st_newIds s (st_next s)]),
         st_timelinePosts := (st_timelinePosts s)
             (st_commentsTimeline s u := setAdd (st_timelinePosts s (st_commentsTimeline s u)) p),
         st_postUsage := (st_postUsage s)(p := setAdd (st_postUsage s p) (st_commentsTimeline s u)),
         st_commentsGiven := (st_commentsGiven s)(u := st_commentsGiven s u + 1) \<rparr>)"
  using assms
  by (simp add: create_def validate_def valid_stamps Let_def spec_defs stampToString_def)

lemma hasCommentOn_cong:
  assumes "st_postComments s' p = st_postComments s p"
    and "\<And>j. j \<in> set (st_postComments s p) \<Longrightarrow> st_comments s' j = st_comments s j"
  shows "hasCommentOn s' u p = hasCommentOn s u p"
  using assms by (simp add: hasCommentOn_def list_ex_iff cong: bex_cong)

lemma round_trip_facts:
  assumes "valid c" and "c_userId c = Some u" and "c_postId c = Some p"
    and "st_posts s p = Some pst" and "post_id pst = p"
    and "st_newIds s (st_next s) \<notin> set (st_postComments s p)"
  shows "inCommentsTimeline (snd (snd (create specEnv now1 now2 c s))) u p"
    and "hasCommentOn (createThenDestroy now1 now2 c s) u p = hasCommentOn s u p"
    and "inCommentsTimeline (createThenDestroy now1 now2 c s) u p = hasCommentOn s u p"
    and "hasCommentOn s u p \<longrightarrow>
         st_timelinePosts (createThenDestroy now1 now2 c s) =
         st_timelinePosts (snd (snd (create specEnv now1 now2 c s)))"
proof -
  let ?i = "st_newIds s (st_next s)"
  let ?c1 = "fst (snd (create specEnv now1 now2 c s))"
  let ?s1 = "snd (snd (create specEnv now1 now2 c s))"
  note cl = create_law [OF assms(1-5), of now1 now2]
  have c1: "c_id ?c1 = Some ?i" "c_userId ?c1 = Some u" "c_postId ?c1 = Some p"
    using assms(2,3) by (simp_all add: cl)
  have s1: "st_posts ?s1 p = Some pst"
    using assms(4) by (simp add: cl)
  have ctd: "createThenDestroy now1 now2 c s = snd (destroy specEnv ?c1 ?s1)"
    by (simp add: createThenDestroy_def split: prod.split)
  show m1: "inCommentsTimeline ?s1 u p"
    by (simp add: cl inCommentsTimeline_def setAdd_def)
  note dc = destroy_comments [OF c1 s1 assms(5)]
  have a: "st_postComments ?s1 = (st_postComments s)(p := st_postComments s p @ [?i])"
    "st_comments ?s1 = (st_comments s)(?i \<mapsto>
             \<lparr> pl_body = c_body c, pl_userId = Some u, pl_postId = Some p,
               pl_createdAt = numberToString now1, pl_updatedAt = numberToString now2 \<rparr>)"
    by (simp_all add: cl)
  have "st_postComments (createThenDestroy now1 now2 c s) p = st_postComments s p"
    using assms(6) dc by (simp add: ctd a)
  moreover have "st_comments (createThenDestroy now1 now2 c s) j = st_comments s j"
    if "j \<in> set (st_postComments s p)" for j
    using that assms(6) dc by (auto simp: ctd a)
  ultimately show h: "hasCommentOn (createThenDestroy now1 now2 c s) u p = hasCommentOn s u p"
    by (rule hasCommentOn_cong)
  note dl = destroy_law [OF c1 s1 assms(5)]
  show "inCommentsTimeline (createThenDestroy now1 now2 c s) u p = hasCommentOn s u p"
    using dl m1 h by (simp add: ctd)
  show "hasCommentOn s u p \<longrightarrow>
         st_timelinePosts (createThenDestroy now1 now2 c s) = st_timelinePosts ?s1"
    using dl h by (simp add: ctd)
qed

lemma marsComment_facts:
  "valid (marsComment ''first'')"
  "valid (marsComment ''second'')"
  "c_userId (marsComment b) = Some ''mars''"
  "c_postId (marsComment b) = Some ''p1''"
  by (simp_all add: marsComment_def Comment_def valid_def setBody_def trim_def isWhiteSpace_def
      truthy_def)

lemma freshStore_facts:
  "st_posts freshStore ''p1'' = Some (demoPost ''p1'')"
  "post_id (demoPost ''p1'') = ''p1''"
  "st_newIds freshStore (st_next freshStore) \<notin> set (st_postComments freshStore ''p1'')"
  "\<not> hasCommentOn freshStore ''mars'' ''p1''"
  "\<not> inCommentsTimeline freshStore ''mars'' ''p1''"
  by (simp_all add: freshStore_def demoPost_def hasCommentOn_def inCommentsTimeline_def)

lemma commentedStore_facts:
  "st_posts commentedStore ''p1'' = Some (demoPost ''p1'')"
  "st_newIds commentedStore (st_next commentedStore) \<notin> set (st_postComments commentedStore ''p1'')"
  "hasCommentOn commentedStore ''mars'' ''p1''"
  "inCommentsTimeline commentedStore ''mars'' ''p1''"
proof -
  have cs: "commentedStore =
      snd (snd (Inr [st_commentsTimeline freshStore ''mars''] :: js_error + string list,
        (marsComment ''first'')\<lparr> c_createdAt := Some (Num 1), c_updatedAt := Some (Num 1),
           c_id := Some (st_newIds freshStore (st_next freshStore)) \<rparr>,
        freshStore\<lparr> st_comments := (st_comments freshStore)
               (st_newIds freshStore (st_next freshStore) \<mapsto>
                  \<lparr> pl_body = c_body (marsComment ''first''), pl_userId = Some ''mars'',
                    pl_postId = Some ''p1'', pl_createdAt = numberToString 1,
                    pl_updatedAt = numberToString 1 \<rparr>),
           st_next := Suc (st_next freshStore),
           st_postComments := (st_postComments freshStore)
               (''p1'' := st_postComments freshStore ''p1'' @
                  [st_newIds freshStore (st_next freshStore)]),
           st_timelinePosts := (st_timelinePosts freshStore)
               (st_commentsTimeline freshStore ''mars'' :=
                  setAdd (st_timelinePosts freshStore (st_commentsTimeline freshStore ''mars''))
                    ''p1''),
           st_postUsage := (st_postUsage freshStore)
               (''p1'' := setAdd (st_postUsage freshStore ''p1'')
                  (st_commentsTimeline freshStore ''mars'')),
           st_commentsGiven := (st_commentsGiven freshStore)
               (''mars'' := st_commentsGiven freshStore ''mars'' + 1) \<rparr>))"
    unfolding commentedStore_def
    by (subst create_law [OF marsComment_facts(1) marsComment_facts(3) marsComment_facts(4)
          freshStore_facts(1) freshStore_facts(2)]) (rule refl)
  show "st_posts commentedStore ''p1'' = Some (demoPost ''p1'')"
    "st_newIds commentedStore (st_next commentedStore) \<notin> set (st_postComments commentedStore ''p1'')"
    "hasCommentOn commentedStore ''mars'' ''p1''"
    "inCommentsTimeline commentedStore ''mars'' ''p1''"
    by (simp_all add: cs freshStore_def hasCommentOn_def inCommentsTimeline_def setAdd_def)
qed

lemma detachedStore_facts:
  "st_posts detachedStore ''p1'' = Some (demoPost ''p1'')"
  "st_newIds detachedStore (st_next detachedStore) \<notin> set (st_postComments detachedStore ''p1'')"
  "hasCommentOn detachedStore ''mars'' ''p1''"
  "\<not> inCommentsTimeline detachedStore ''mars'' ''p1''"
  using commentedStore_facts
  by (simp_all add: detachedStore_def hasCommentOn_def inCommentsTimeline_def)

text \<open>
  C4, as the claim states it, fails: when the user already has a comment on the post,
  creating a second comment and destroying it leaves the post in the user's Comments
  timeline, which is the state before the second comment, although another comment of
  the user remains.
\<close>

theorem comment_round_trip_counterexample:
  "roundTripRestores 5 6 (marsComment ''second'') commentedStore ''mars'' ''p1'' \<and>
   hasCommentOn (createThenDestroy 5 6 (marsComment ''second'') commentedStore) ''mars'' ''p1'' \<and>
   \<not> (roundTripRestores 5 6 (marsComment ''second'') commentedStore ''mars'' ''p1'' \<longleftrightarrow>
        \<not> hasCommentOn (createThenDestroy 5 6 (marsComment ''second'') commentedStore)
            ''mars'' ''p1'')"
proof -
  note f = round_trip_facts [OF marsComment_facts(2) marsComment_facts(3) marsComment_facts(4)
      commentedStore_facts(1) freshStore_facts(2) commentedStore_facts(2), of 5 6]
  show ?thesis
    using f(2) f(3) commentedStore_facts(3) commentedStore_facts(4)
    by (simp add: roundTripRestores_def)
qed

text \<open>
  C4, amended. Let a valid comment of user \<open>u\<close> on a stored post \<open>p\<close> be created and then
  destroyed, the new comment id not being in the post's list already. \<open>create\<close> succeeds
  and puts the post in the user's Comments timeline. The user's comments that remain on
  the post after \<open>destroy\<close> are those from before. After \<open>destroy\<close> the post is in
  that timeline exactly when the user has another comment remaining on the post, and
  in that case \<open>destroy\<close> has changed no timeline. So, from a state in which the post was
  not in the user's Comments timeline, the round trip restores the membership if and only
  if the user has no other comment remaining on the post.
\<close>

theorem comment_round_trip:
  assumes "valid c" and "c_userId c = Some u" and "c_postId c = Some p"
    and "st_posts s p = Some pst" and "post_id pst = p"
    and "st_newIds s (st_next s) \<notin> set (st_postComments s p)"
  shows "fst (create specEnv now1 now2 c s) = Inr [st_commentsTimeline s u] \<and>
         inCommentsTimeline (snd (snd (create specEnv now1 now2 c s))) u p \<and>
         (hasCommentOn (createThenDestroy now1 now2 c s) u p \<longleftrightarrow> hasCommentOn s u p) \<and>
         (inCommentsTimeline (createThenDestroy now1 now2 c s) u p \<longleftrightarrow>
            hasCommentOn (createThenDestroy now1 now2 c s) u p) \<and>
         (hasCommentOn (createThenDestroy now1 now2 c s) u p \<longrightarrow>
            st_timelinePosts (createThenDestroy now1 now2 c s) =
            st_timelinePosts (snd (snd (create specEnv now1 now2 c s)))) \<and>
         (\<not> inCommentsTimeline s u p \<longrightarrow>
            (roundTripRestores now1 now2 c s u p \<longleftrightarrow>
             \<not> hasCommentOn (createThenDestroy now1 now2 c s) u p))"
proof -
  note f = round_trip_facts [OF assms, of now1 now2]
  have "fst (create specEnv now1 now2 c s) = Inr [st_commentsTimeline s u]"
    by (simp add: create_law [OF assms(1-5)])
  then show ?thesis
    using f by (auto simp: roundTripRestores_def)
qed

theorem comment_round_trip_witness:
  "roundTripRestores 5 6 (marsComment ''second'') freshStore ''mars'' ''p1'' \<and>
   \<not> hasCommentOn (createThenDestroy 5 6 (marsComment ''second'') freshStore) ''mars'' ''p1'' \<and>
   \<not> inCommentsTimeline (createThenDestroy 5 6 (marsComment ''second'') freshStore) ''mars'' ''p1'' \<and>
   \<not> roundTripRestores 5 6 (marsComment ''second'') detachedStore ''mars'' ''p1'' \<and>
   hasCommentOn (createThenDestroy 5 6 (marsComment ''second'') detachedStore) ''mars'' ''p1'' \<and>
   inCommentsTimeline (createThenDestroy 5 6 (marsComment ''second'') detachedStore) ''mars'' ''p1''"
proof -
  note a = comment_round_trip [OF marsComment_facts(2) marsComment_facts(3) marsComment_facts(4)
      freshStore_facts(1) freshStore_facts(2) freshStore_facts(3), of 5 6]
  note b = comment_round_trip [OF marsComment_facts(2) marsComment_facts(3) marsComment_facts(4)
      detachedStore_facts(1) freshStore_facts(2) detachedStore_facts(2), of 5 6]
  have 1: "\<not> inCommentsTimeline (createThenDestroy 5 6 (marsComment ''second'') freshStore)
             ''mars'' ''p1''"
    using a freshStore_facts(4) by simp
  have 2: "inCommentsTimeline (createThenDestroy 5 6 (marsComment ''second'') detachedStore)
             ''mars'' ''p1''"
    using b detachedStore_facts(3) by simp
  show ?thesis
    using a b 1 2 freshStore_facts(4) freshStore_facts(5) detachedStore_facts(3)
      detachedStore_facts(4)
    by (simp add: roundTripRestores_def)
qed

end
